theory Spec2Isabelle
  imports Complex_Main
begin

section \<open>Instantiation utilities of ax.service.utils.instantiation\<close>

text \<open>
  A shallow embedding of \<^verbatim>\<open>src/ax/service/utils/instantiation.py\<close>. Python
  strings are lists of code points below 256 (\<open>string\<close>); a \<^verbatim>\<open>dict\<close> is an
  association list in insertion order whose lookup is \<open>map_of\<close>; a raised exception is
  the \<open>Inl\<close> branch of a sum. Assertions are taken to be enabled. The builtin
  \<^verbatim>\<open>float\<close> is a parameter \<open>pyfloat\<close> of the functions that call it: it returns
  \<open>None\<close> where \<^verbatim>\<open>float(token)\<close> raises, and the float type itself is the type
  variable \<open>'f\<close>.
\<close>

subsection \<open>Exceptions\<close>

text \<open>The message of an exception, with the token or field it names.\<close>

datatype msg =
    NoParameterType
  | ConstraintForm
  | BoundNotNumber string
  | WeightNotNumber string
  | ParameterNotKnown string
  | ExpectedPlus string
  | ExpectedTimes string
  | OutcomeConstraintForm
  | OutcomeBoundNotFloat
  | MustSetStatusQuo
  | OneArmExpected
  | InvalidRawData
  | MixedFidelity
  | ArgumentWasNone
  | ValuesNotSameType string string
  | BoundsRequired
  | BoundsNotTwoValues string
  | ValuesRequired
  | ValuesNotList string
  | ValueRequired
  | FixedNotSingleValue string
  | NameNotString
  | BadParameterClass
  | BadValueType
  | NoMessage
  | UnrecognizedParameterClass

datatype error =
    ValueError msg
  | AssertionError msg
  | KeyError string
  | IndexError

subsection \<open>Strings, token streams and dictionaries\<close>

text \<open>\<^verbatim>\<open>str.isspace\<close> on the code points below 256.\<close>

definition isspace :: "char \<Rightarrow> bool" where
  "isspace c \<longleftrightarrow> c \<in> set [CHR 0x09, CHR 0x0A, CHR 0x0B, CHR 0x0C, CHR 0x0D,
      CHR 0x1C, CHR 0x1D, CHR 0x1E, CHR 0x1F, CHR 0x20, CHR 0x85, CHR 0xA0]"

text \<open>
  \<^verbatim>\<open>representation.split()\<close>: the maximal runs of non-whitespace, in order. The
  first argument is the token being read.
\<close>

fun split_from :: "string \<Rightarrow> string \<Rightarrow> string list" where
  "split_from cur [] = (if cur = [] then [] else [cur])"
| "split_from cur (c # cs) =
     (if isspace c then (if cur = [] then split_from [] cs else cur # split_from [] cs)
      else split_from (cur @ [c]) cs)"

definition split :: "string \<Rightarrow> string list" where
  "split s = split_from [] s"

text \<open>\<^verbatim>\<open>d.keys()\<close> and \<^verbatim>\<open>d[k]\<close>.\<close>

definition keys :: "('k \<times> 'v) list \<Rightarrow> 'k list" where
  "keys d = map fst d"

definition getitem :: "(string \<times> 'v) list \<Rightarrow> string \<Rightarrow> error + 'v" where
  "getitem d k = (case map_of d k of None \<Rightarrow> Inl (KeyError k) | Some v \<Rightarrow> Inr v)"

text \<open>\<^verbatim>\<open>d[k] = v\<close>: an existing key keeps its place, a new one goes last.\<close>

fun setitem :: "('k \<times> 'v) list \<Rightarrow> 'k \<Rightarrow> 'v \<Rightarrow> ('k \<times> 'v) list" where
  "setitem [] k v = [(k, v)]"
| "setitem ((k', v') # d) k v = (if k' = k then (k', v) # d else (k', v') # setitem d k v)"

text \<open>\<^verbatim>\<open>dict(pairs)\<close> and the dict comprehension: the pairs are stored left to right.\<close>

definition dict :: "('k \<times> 'v) list \<Rightarrow> ('k \<times> 'v) list" where
  "dict ps = foldl (\<lambda>d (k, v). setitem d k v) [] ps"

text \<open>A list comprehension whose body may raise: it stops at the first exception.\<close>

fun map_raise :: "('a \<Rightarrow> error + 'b) \<Rightarrow> 'a list \<Rightarrow> error + 'b list" where
  "map_raise f [] = Inr []"
| "map_raise f (x # xs) =
     (case f x of Inl e \<Rightarrow> Inl e
      | Inr y \<Rightarrow> (case map_raise f xs of Inl e \<Rightarrow> Inl e | Inr ys \<Rightarrow> Inr (y # ys)))"

subsection \<open>Comparison operators\<close>

datatype ComparisonOp = LEQ | GEQ

definition COMPARISON_OPS :: "(string \<times> ComparisonOp) list" where
  "COMPARISON_OPS = [(''<='', LEQ), (''>='', GEQ)]"

subsection \<open>Parameter constraints\<close>

text \<open>
  The three constraint objects built by the parser, with the arguments their
  constructors receive: \<^verbatim>\<open>OrderConstraint(lower_parameter, upper_parameter)\<close>,
  \<^verbatim>\<open>SumConstraint(parameters, is_upper_bound, bound)\<close> and
  \<^verbatim>\<open>ParameterConstraint(constraint_dict, bound)\<close>. The constructors belong to
  \<^verbatim>\<open>ax.core.parameter_constraint\<close>.
\<close>

datatype ('p, 'f) ParameterConstraint =
    OrderConstraint 'p 'p
  | SumConstraint "'p list" bool 'f
  | ParameterConstraint "(string \<times> 'f) list" 'f

text \<open>The three shape tests at the head of \<^verbatim>\<open>constraint_from_str\<close>.\<close>

definition order_const :: "string list \<Rightarrow> bool" where
  "order_const tokens \<longleftrightarrow> length tokens = 3 \<and> tokens ! 1 \<in> set (keys COMPARISON_OPS)"

definition sum_const :: "string list \<Rightarrow> bool" where
  "sum_const tokens \<longleftrightarrow>
     length tokens \<ge> 5 \<and> length tokens mod 2 = 1
     \<and> tokens ! (length tokens - 2) \<in> set (keys COMPARISON_OPS)
     \<and> ''*'' \<notin> set tokens"

definition parameter_const :: "string list \<Rightarrow> bool" where
  "parameter_const tokens \<longleftrightarrow>
     length tokens \<ge> 5 \<and> length tokens mod 2 = 1
     \<and> tokens ! (length tokens - 2) \<in> set (keys COMPARISON_OPS)
     \<and> ''*'' \<in> set tokens"

text \<open>
  The loop of the sum form over \<^verbatim>\<open>enumerate(tokens[:-2])\<close>, from index \<open>idx\<close> on,
  with the names collected so far; it returns \<^verbatim>\<open>used_parameters\<close>.
\<close>

fun sum_loop :: "string list \<Rightarrow> nat \<Rightarrow> string list \<Rightarrow> string list \<Rightarrow> error + string list" where
  "sum_loop parameter_names idx [] used_parameters = Inr used_parameters"
| "sum_loop parameter_names idx (token # rest) used_parameters =
     (if idx mod 2 = 0 then
        (if token \<in> set parameter_names
         then sum_loop parameter_names (idx + 1) rest (used_parameters @ [token])
         else Inl (AssertionError (ParameterNotKnown token)))
      else
        (if token = ''+''
         then sum_loop parameter_names (idx + 1) rest used_parameters
         else Inl (AssertionError (ExpectedPlus token))))"

text \<open>
  The loop of the weighted form; it returns \<^verbatim>\<open>used_parameters\<close> and
  \<^verbatim>\<open>used_weights\<close>. The bare \<^verbatim>\<open>except\<close> turns any failure of \<^verbatim>\<open>float\<close> into
  a \<^verbatim>\<open>ValueError\<close>.
\<close>

fun weight_loop :: "(string \<Rightarrow> 'f option) \<Rightarrow> string list \<Rightarrow> nat \<Rightarrow> string list
    \<Rightarrow> string list \<Rightarrow> 'f list \<Rightarrow> error + (string list \<times> 'f list)" where
  "weight_loop pyfloat parameter_names idx [] used_parameters used_weights =
     Inr (used_parameters, used_weights)"
| "weight_loop pyfloat parameter_names idx (token # rest) used_parameters used_weights =
     (if idx mod 4 = 0 then
        (case pyfloat token of
           None \<Rightarrow> Inl (ValueError (WeightNotNumber token))
         | Some weight \<Rightarrow>
             weight_loop pyfloat parameter_names (idx + 1) rest used_parameters
               (used_weights @ [weight]))
      else if idx mod 4 = 1 then
        (if token = ''*''
         then weight_loop pyfloat parameter_names (idx + 1) rest used_parameters used_weights
         else Inl (AssertionError (ExpectedTimes token)))
      else if idx mod 4 = 2 then
        (if token \<in> set parameter_names
         then weight_loop pyfloat parameter_names (idx + 1) rest (used_parameters @ [token])
                used_weights
         else Inl (AssertionError (ParameterNotKnown token)))
      else
        (if token = ''+''
         then weight_loop pyfloat parameter_names (idx + 1) rest used_parameters used_weights
         else Inl (AssertionError (ExpectedPlus token))))"

text \<open>
  \<^verbatim>\<open>constraint_from_str\<close> on the token stream. Past the shape test one of the three
  shapes holds, so the last branch is the one of \<^verbatim>\<open>parameter_const\<close>.
\<close>

definition constraint_from_tokens :: "(string \<Rightarrow> 'f option) \<Rightarrow> string list
    \<Rightarrow> (string \<times> 'p) list \<Rightarrow> error + ('p, 'f) ParameterConstraint" where
  "constraint_from_tokens pyfloat tokens params =
     (let parameter_names = keys params in
      if \<not> (order_const tokens \<or> sum_const tokens \<or> parameter_const tokens)
      then Inl (ValueError ConstraintForm)
      else if order_const tokens then
        (let left = tokens ! 0; right = tokens ! 2 in
         if left \<notin> set parameter_names then Inl (AssertionError (ParameterNotKnown left))
         else if right \<notin> set parameter_names then Inl (AssertionError (ParameterNotKnown right))
         else
           (case getitem COMPARISON_OPS (tokens ! 1) of
              Inl e \<Rightarrow> Inl e
            | Inr cmp \<Rightarrow>
                (if cmp = LEQ
                 then (case getitem params left of Inl e \<Rightarrow> Inl e | Inr l \<Rightarrow>
                        (case getitem params right of Inl e \<Rightarrow> Inl e | Inr u \<Rightarrow>
                           Inr (OrderConstraint l u)))
                 else (case getitem params right of Inl e \<Rightarrow> Inl e | Inr l \<Rightarrow>
                        (case getitem params left of Inl e \<Rightarrow> Inl e | Inr u \<Rightarrow>
                           Inr (OrderConstraint l u))))))
      else
        (case pyfloat (last tokens) of
           None \<Rightarrow> Inl (ValueError (BoundNotNumber (last tokens)))
         | Some bnd \<Rightarrow>
             if sum_const tokens then
               (case sum_loop parameter_names 0 (take (length tokens - 2) tokens) [] of
                  Inl e \<Rightarrow> Inl e
                | Inr used_parameters \<Rightarrow>
                    (case map_raise (getitem params)
                            (filter (\<lambda>p. p \<in> set used_parameters) (keys params)) of
                       Inl e \<Rightarrow> Inl e
                     | Inr ps \<Rightarrow>
                         (case getitem COMPARISON_OPS (tokens ! (length tokens - 2)) of
                            Inl e \<Rightarrow> Inl e
                          | Inr cmp \<Rightarrow> Inr (SumConstraint ps (cmp = LEQ) bnd))))
             else
               (case weight_loop pyfloat parameter_names 0
                       (take (length tokens - 2) tokens) [] [] of
                  Inl e \<Rightarrow> Inl e
                | Inr (used_parameters, used_weights) \<Rightarrow>
                    Inr (ParameterConstraint (dict (zip used_parameters used_weights)) bnd))))"

definition constraint_from_str :: "(string \<Rightarrow> 'f option) \<Rightarrow> string
    \<Rightarrow> (string \<times> 'p) list \<Rightarrow> error + ('p, 'f) ParameterConstraint" where
  "constraint_from_str pyfloat repr params =
     constraint_from_tokens pyfloat (split repr) params"

subsection \<open>Python values\<close>

text \<open>
  The values that reach the parameter builder and the evaluation normaliser: the
  scalars of \<^verbatim>\<open>TParamValue\<close>, lists, tuples, dicts with string keys, and the four
  numpy scalar classes the source names.
\<close>

datatype 'f pyval =
    PyNone
  | PyBool bool
  | PyInt int
  | PyFloat 'f
  | PyStr string
  | PyList "'f pyval list"
  | PyTuple "'f pyval list"
  | PyDict "(string \<times> 'f pyval) list"
  | NpFloat32 'f
  | NpFloat64 'f
  | NpInt32 int
  | NpInt64 int

datatype pyclass =
    cls_NoneType | cls_bool | cls_int | cls_float | cls_str | cls_list | cls_tuple | cls_dict
  | cls_np_float32 | cls_np_float64 | cls_np_int32 | cls_np_int64

text \<open>\<^verbatim>\<open>type(x)\<close>.\<close>

fun type_of :: "'f pyval \<Rightarrow> pyclass" where
  "type_of PyNone = cls_NoneType"
| "type_of (PyBool _) = cls_bool"
| "type_of (PyInt _) = cls_int"
| "type_of (PyFloat _) = cls_float"
| "type_of (PyStr _) = cls_str"
| "type_of (PyList _) = cls_list"
| "type_of (PyTuple _) = cls_tuple"
| "type_of (PyDict _) = cls_dict"
| "type_of (NpFloat32 _) = cls_np_float32"
| "type_of (NpFloat64 _) = cls_np_float64"
| "type_of (NpInt32 _) = cls_np_int32"
| "type_of (NpInt64 _) = cls_np_int64"

text \<open>
  The subclass relation among these classes: \<^verbatim>\<open>bool\<close> derives from \<^verbatim>\<open>int\<close> and
  \<^verbatim>\<open>numpy.float64\<close> from \<^verbatim>\<open>float\<close>.
\<close>

definition issubclass :: "pyclass \<Rightarrow> pyclass \<Rightarrow> bool" where
  "issubclass c d \<longleftrightarrow>
     c = d \<or> (c = cls_bool \<and> d = cls_int) \<or> (c = cls_np_float64 \<and> d = cls_float)"

definition isinstance :: "'f pyval \<Rightarrow> pyclass \<Rightarrow> bool" where
  "isinstance x c \<longleftrightarrow> issubclass (type_of x) c"

text \<open>\<^verbatim>\<open>d.get(k, default)\<close>.\<close>

definition dict_get :: "(string \<times> 'v) list \<Rightarrow> string \<Rightarrow> 'v \<Rightarrow> 'v" where
  "dict_get d k dflt = (case map_of d k of None \<Rightarrow> dflt | Some v \<Rightarrow> v)"

text \<open>
  The helper \<^verbatim>\<open>not_none\<close> of \<^verbatim>\<open>ax.utils.common.typeutils\<close> is outside the
  sources at hand; by its name and use it returns its argument unless that is
  \<^verbatim>\<open>None\<close>, where it raises.
\<close>

definition not_none :: "'f pyval \<Rightarrow> error + 'f pyval" where
  "not_none v = (if v = PyNone then Inl (ValueError ArgumentWasNone) else Inr v)"

text \<open>
  Modelled from the spec: the helper \<^verbatim>\<open>numpy_type_to_python_type\<close> is a numeric-type
  coercion helper outside the sources at hand; a numpy number becomes the plain number
  of the same value.
\<close>

fun numpy_type_to_python_type :: "'f pyval \<Rightarrow> 'f pyval" where
  "numpy_type_to_python_type (NpFloat32 x) = PyFloat x"
| "numpy_type_to_python_type (NpFloat64 x) = PyFloat x"
| "numpy_type_to_python_type (NpInt32 n) = PyInt n"
| "numpy_type_to_python_type (NpInt64 n) = PyInt n"
| "numpy_type_to_python_type v = v"

subsection \<open>Parameters\<close>

definition PARAM_CLASSES :: "string list" where
  "PARAM_CLASSES = [''range'', ''choice'', ''fixed'']"

definition PARAM_TYPES :: "(string \<times> pyclass) list" where
  "PARAM_TYPES = [(''int'', cls_int), (''float'', cls_float), (''bool'', cls_bool),
     (''str'', cls_str)]"

text \<open>The members of the enum \<^verbatim>\<open>ParameterType\<close>.\<close>

datatype ParameterType = T_BOOL | T_INT | T_FLOAT | T_STRING

text \<open>
  Modelled from the spec: the table \<^verbatim>\<open>PARAMETER_PYTHON_TYPE_MAP\<close> of
  \<^verbatim>\<open>ax.core.parameter\<close> is outside the sources at hand; it is the parameter-type enum
  with its fixed bijection to the host scalar types.
\<close>

definition PARAMETER_PYTHON_TYPE_MAP :: "(ParameterType \<times> pyclass) list" where
  "PARAMETER_PYTHON_TYPE_MAP =
     [(T_BOOL, cls_bool), (T_INT, cls_int), (T_FLOAT, cls_float), (T_STRING, cls_str)]"

text \<open>
  The parameter objects, with the arguments their constructors receive:
  \<^verbatim>\<open>RangeParameter(name, parameter_type, lower, upper, log_scale, is_fidelity)\<close>,
  \<^verbatim>\<open>ChoiceParameter(name, parameter_type, values, is_ordered)\<close> and
  \<^verbatim>\<open>FixedParameter(name, parameter_type, value)\<close>.
\<close>

datatype 'f Parameter =
    RangeParameter (name: string) ParameterType "'f pyval" "'f pyval" "'f pyval" "'f pyval"
  | ChoiceParameter (name: string) ParameterType "'f pyval list" "'f pyval"
  | FixedParameter (name: string) ParameterType "'f pyval"

text \<open>The leading underscore of the private helpers is dropped.\<close>

definition get_parameter_type :: "pyclass \<Rightarrow> error + ParameterType" where
  "get_parameter_type python_type =
     (case find (\<lambda>(param_type, py_type). py_type = python_type) PARAMETER_PYTHON_TYPE_MAP of
        Some (param_type, py_type) \<Rightarrow> Inr param_type
      | None \<Rightarrow> Inl (ValueError NoParameterType))"

definition to_parameter_type :: "'f pyval list \<Rightarrow> string option \<Rightarrow> string \<Rightarrow> string
    \<Rightarrow> error + ParameterType" where
  "to_parameter_type vals typ param_name field_name =
     (case typ of
        None \<Rightarrow>
          (case vals of
             [] \<Rightarrow> Inl IndexError
           | v0 # _ \<Rightarrow>
               (case not_none v0 of
                  Inl e \<Rightarrow> Inl e
                | Inr v \<Rightarrow>
                    (case get_parameter_type (type_of v) of
                       Inl e \<Rightarrow> Inl e
                     | Inr parameter_type \<Rightarrow>
                         if list_all (\<lambda>x. isinstance x (type_of v)) vals
                         then Inr parameter_type
                         else Inl (AssertionError (ValuesNotSameType field_name param_name)))))
      | Some t \<Rightarrow>
          (case getitem PARAM_TYPES t of
             Inl e \<Rightarrow> Inl e
           | Inr py_type \<Rightarrow> get_parameter_type py_type))"

definition make_range_param :: "string \<Rightarrow> (string \<times> 'f pyval) list \<Rightarrow> string option
    \<Rightarrow> error + 'f Parameter" where
  "make_range_param nm repr parameter_type =
     (case map_of repr ''bounds'' of
        None \<Rightarrow> Inl (AssertionError BoundsRequired)
      | Some bounds \<Rightarrow>
          (case bounds of
             PyList [lo, hi] \<Rightarrow>
               (case to_parameter_type [lo, hi] parameter_type nm ''bounds'' of
                  Inl e \<Rightarrow> Inl e
                | Inr pt \<Rightarrow>
                    Inr (RangeParameter nm pt lo hi
                          (dict_get repr ''log_scale'' (PyBool False))
                          (dict_get repr ''is_fidelity'' (PyBool False))))
           | _ \<Rightarrow> Inl (AssertionError (BoundsNotTwoValues nm))))"

definition make_choice_param :: "string \<Rightarrow> (string \<times> 'f pyval) list \<Rightarrow> string option
    \<Rightarrow> error + 'f Parameter" where
  "make_choice_param nm repr parameter_type =
     (case map_of repr ''values'' of
        None \<Rightarrow> Inl (AssertionError ValuesRequired)
      | Some vals \<Rightarrow>
          (case vals of
             PyList vs \<Rightarrow>
               if length vs > 1 then
                 (case to_parameter_type vs parameter_type nm ''values'' of
                    Inl e \<Rightarrow> Inl e
                  | Inr pt \<Rightarrow>
                      Inr (ChoiceParameter nm pt vs (dict_get repr ''is_ordered'' (PyBool False))))
               else Inl (AssertionError (ValuesNotList nm))
           | _ \<Rightarrow> Inl (AssertionError (ValuesNotList nm))))"

definition make_fixed_param :: "string \<Rightarrow> (string \<times> 'f pyval) list \<Rightarrow> string option
    \<Rightarrow> error + 'f Parameter" where
  "make_fixed_param nm repr parameter_type =
     (case map_of repr ''value'' of
        None \<Rightarrow> Inl (AssertionError ValueRequired)
      | Some v \<Rightarrow>
          if type_of v \<notin> set (map snd PARAM_TYPES)
          then Inl (AssertionError (FixedNotSingleValue nm))
          else
            (case (case parameter_type of
                     None \<Rightarrow> get_parameter_type (type_of v)
                   | Some t \<Rightarrow>
                       (case getitem PARAM_TYPES t of
                          Inl e \<Rightarrow> Inl e
                        | Inr py_type \<Rightarrow> get_parameter_type py_type)) of
               Inl e \<Rightarrow> Inl e
             | Inr pt \<Rightarrow> Inr (FixedParameter nm pt v)))"

definition parameter_from_json :: "(string \<times> 'f pyval) list \<Rightarrow> error + 'f Parameter" where
  "parameter_from_json repr =
     (case getitem repr ''name'' of
        Inl e \<Rightarrow> Inl e
      | Inr nm_val \<Rightarrow>
          (case nm_val of
             PyStr nm \<Rightarrow>
               (case getitem repr ''type'' of
                  Inl e \<Rightarrow> Inl e
                | Inr cls_val \<Rightarrow>
                    (case cls_val of
                       PyStr parameter_class \<Rightarrow>
                         if parameter_class \<notin> set PARAM_CLASSES
                         then Inl (AssertionError BadParameterClass)
                         else
                           (case (case dict_get repr ''value_type'' PyNone of
                                    PyNone \<Rightarrow> Inr None
                                  | PyStr t \<Rightarrow>
                                      if t \<in> set (keys PARAM_TYPES) then Inr (Some t)
                                      else Inl (AssertionError BadValueType)
                                  | _ \<Rightarrow> Inl (AssertionError BadValueType)) of
                              Inl e \<Rightarrow> Inl e
                            | Inr parameter_type \<Rightarrow>
                                if parameter_class = ''range''
                                then make_range_param nm repr parameter_type
                                else if parameter_class = ''choice''
                                then make_choice_param nm repr parameter_type
                                else if parameter_class = ''fixed''
                                then
                                  (if list_ex (\<lambda>val. isinstance val cls_list) (map snd repr)
                                   then Inl (AssertionError NoMessage)
                                   else make_fixed_param nm repr parameter_type)
                                else Inl (ValueError UnrecognizedParameterClass))
                     | _ \<Rightarrow> Inl (AssertionError BadParameterClass)))
           | _ \<Rightarrow> Inl (AssertionError NameNotString)))"

subsection \<open>Outcome constraints\<close>

datatype Metric = Metric string

text \<open>\<^verbatim>\<open>OutcomeConstraint(metric, op, bound, relative)\<close>.\<close>

datatype 'f OutcomeConstraint =
  OutcomeConstraint (metric: Metric) (op: ComparisonOp) (bound: 'f) (relative: bool)

definition outcome_constraint_from_str :: "(string \<Rightarrow> 'f option) \<Rightarrow> string
    \<Rightarrow> error + 'f OutcomeConstraint" where
  "outcome_constraint_from_str pyfloat repr =
     (let tokens = split repr in
      if \<not> (length tokens = 3 \<and> tokens ! 1 \<in> set (keys COMPARISON_OPS))
      then Inl (AssertionError OutcomeConstraintForm)
      else
        (case getitem COMPARISON_OPS (tokens ! 1) of
           Inl e \<Rightarrow> Inl e
         | Inr cmp \<Rightarrow>
             (let bound_repr = tokens ! 2 in
              if bound_repr = [] then Inl IndexError
              else
                (let rel = (last bound_repr = CHR ''%'');
                     bound_repr = (if rel then butlast bound_repr else bound_repr)
                 in case pyfloat bound_repr of
                      None \<Rightarrow> Inl (ValueError OutcomeBoundNotFloat)
                    | Some b \<Rightarrow> Inr (OutcomeConstraint (Metric (tokens ! 0)) cmp b rel)))))"

subsection \<open>Experiments\<close>

text \<open>
  The objects assembled by \<^verbatim>\<open>make_experiment\<close>, with the arguments their
  constructors receive: \<^verbatim>\<open>Arm(parameters)\<close>, \<^verbatim>\<open>Objective(metric, minimize)\<close>,
  \<^verbatim>\<open>OptimizationConfig(objective, outcome_constraints)\<close>,
  \<^verbatim>\<open>SearchSpace(parameters, parameter_constraints)\<close> and
  \<^verbatim>\<open>Experiment(name, search_space, optimization_config, status_quo, experiment_type)\<close>.
\<close>

datatype 'f Arm = Arm "(string \<times> 'f pyval) list"

datatype Objective = Objective Metric bool

datatype 'f OptimizationConfig = OptimizationConfig Objective "'f OutcomeConstraint list"

datatype 'f SearchSpace =
  SearchSpace "'f Parameter list" "('f Parameter, 'f) ParameterConstraint list option"

datatype 'f Experiment =
  Experiment "string option" "'f SearchSpace" "'f OptimizationConfig" "'f Arm option"
    "string option"

text \<open>
  \<^verbatim>\<open>make_experiment\<close>. The constant \<^verbatim>\<open>DEFAULT_OBJECTIVE_NAME\<close> of
  \<^verbatim>\<open>ax.core.simple_experiment\<close> is its first argument here.
\<close>

definition make_experiment :: "string \<Rightarrow> (string \<Rightarrow> 'f option)
    \<Rightarrow> (string \<times> 'f pyval) list list \<Rightarrow> string option \<Rightarrow> string option \<Rightarrow> bool
    \<Rightarrow> string list option \<Rightarrow> string list option \<Rightarrow> (string \<times> 'f pyval) list option
    \<Rightarrow> string option \<Rightarrow> error + 'f Experiment" where
  "make_experiment DEFAULT_OBJECTIVE_NAME pyfloat params nm objective_name minimize
       parameter_constraints outcome_constraints status_quo experiment_type =
     (case map_raise parameter_from_json params of
        Inl e \<Rightarrow> Inl e
      | Inr exp_parameters \<Rightarrow>
          (let status_quo_arm = (case status_quo of None \<Rightarrow> None | Some sq \<Rightarrow> Some (Arm sq));
               parameter_map = dict (map (\<lambda>p. (name p, p)) exp_parameters)
           in case map_raise (outcome_constraint_from_str pyfloat)
                     (case outcome_constraints of None \<Rightarrow> [] | Some cs \<Rightarrow> cs) of
                Inl e \<Rightarrow> Inl e
              | Inr ocs \<Rightarrow>
                  if status_quo_arm = None \<and> list_ex relative ocs
                  then Inl (ValueError MustSetStatusQuo)
                  else
                    (case (case parameter_constraints of
                             None \<Rightarrow> Inr None
                           | Some cs \<Rightarrow>
                               (case map_raise (\<lambda>c. constraint_from_str pyfloat c parameter_map)
                                       cs of
                                  Inl e \<Rightarrow> Inl e
                                | Inr pcs \<Rightarrow> Inr (Some pcs))) of
                       Inl e \<Rightarrow> Inl e
                     | Inr pcs \<Rightarrow>
                         Inr (Experiment nm
                               (SearchSpace exp_parameters pcs)
                               (OptimizationConfig
                                  (Objective
                                     (Metric (case objective_name of
                                                None \<Rightarrow> DEFAULT_OBJECTIVE_NAME
                                              | Some n \<Rightarrow>
                                                  if n = [] then DEFAULT_OBJECTIVE_NAME else n))
                                     minimize)
                                  ocs)
                               status_quo_arm experiment_type))))"

subsection \<open>Evaluations\<close>

definition raw_data_to_evaluation :: "'f pyval \<Rightarrow> string \<Rightarrow> error + 'f pyval" where
  "raw_data_to_evaluation raw_data objective_name =
     (if isinstance raw_data cls_dict then
        (case raw_data of
           PyDict d \<Rightarrow>
             if list_ex (\<lambda>x. isinstance x cls_dict) (map snd d)
             then Inl (ValueError OneArmExpected)
             else Inr raw_data
         | _ \<Rightarrow> Inr raw_data)
      else if isinstance raw_data cls_list then Inr raw_data
      else if isinstance raw_data cls_tuple then Inr (PyDict [(objective_name, raw_data)])
      else if isinstance raw_data cls_float \<or> isinstance raw_data cls_int
      then Inr (PyDict [(objective_name, PyTuple [raw_data, PyNone])])
      else if isinstance raw_data cls_np_float32 \<or> isinstance raw_data cls_np_float64
              \<or> isinstance raw_data cls_np_int32 \<or> isinstance raw_data cls_np_int64
      then Inr (PyDict [(objective_name, PyTuple [numpy_type_to_python_type raw_data, PyNone])])
      else Inl (ValueError InvalidRawData))"

text \<open>
  The table built by \<^verbatim>\<open>Data.from_evaluations\<close> or
  \<^verbatim>\<open>Data.from_fidelity_evaluations\<close> of \<^verbatim>\<open>ax.core.data\<close>, with the arguments the
  entry point receives: evaluations, trial index, sample sizes, start and end time.
\<close>

datatype 'f Data =
    from_evaluations "(string \<times> 'f pyval) list" int "(string \<times> int) list"
      "int option" "int option"
  | from_fidelity_evaluations "(string \<times> 'f pyval) list" int "(string \<times> int) list"
      "int option" "int option"

definition data_from_evaluations :: "(string \<times> 'f pyval) list \<Rightarrow> int \<Rightarrow> (string \<times> int) list
    \<Rightarrow> int option \<Rightarrow> int option \<Rightarrow> error + 'f Data" where
  "data_from_evaluations evaluations trial_index sample_sizes start_time end_time =
     (case map_raise (getitem evaluations) (keys evaluations) of
        Inl e \<Rightarrow> Inl e
      | Inr vals \<Rightarrow>
          if list_all (\<lambda>v. isinstance v cls_dict) vals
          then Inr (from_evaluations evaluations trial_index sample_sizes start_time end_time)
          else if list_all (\<lambda>v. isinstance v cls_list) vals
          then Inr (from_fidelity_evaluations evaluations trial_index sample_sizes
                      start_time end_time)
          else Inl (ValueError MixedFidelity))"

subsection \<open>A reader of decimal literals\<close>

text \<open>
  An instance of \<open>pyfloat\<close> for running the parsers on concrete strings: it reads
  an optional sign, digits and at most one point, as \<^verbatim>\<open>float\<close> does on such a
  literal, and returns the exact value as a rational; everything else is refused.
\<close>

definition digit_value :: "char \<Rightarrow> nat option" where
  "digit_value c = map_of (zip ''0123456789'' [0, 1, 2, 3, 4, 5, 6, 7, 8, 9]) c"

fun digits_value :: "nat \<Rightarrow> string \<Rightarrow> nat option" where
  "digits_value acc [] = Some acc"
| "digits_value acc (c # cs) =
     (case digit_value c of None \<Rightarrow> None | Some d \<Rightarrow> digits_value (10 * acc + d) cs)"

definition decimal_float :: "string \<Rightarrow> rat option" where
  "decimal_float s =
     (let negative = (take 1 s = ''-'');
          body = (if take 1 s = ''-'' \<or> take 1 s = ''+'' then drop 1 s else s);
          whole = takeWhile (\<lambda>c. c \<noteq> CHR ''.'') body;
          frac = drop 1 (dropWhile (\<lambda>c. c \<noteq> CHR ''.'') body)
      in if whole @ frac = [] then None
         else (case digits_value 0 (whole @ frac) of
                 None \<Rightarrow> None
               | Some n \<Rightarrow>
                   Some ((if negative then - 1 else 1) * of_nat n / 10 ^ length frac)))"

subsection \<open>Well-formed token streams\<close>

text \<open>
  The token streams of the two longer grammars, before the comparison operator:
  \<open>p1 + p2 + ... + pn\<close> for a list of names, and
  \<open>w1 * p1 + w2 * p2 + ...\<close> for a list of groups, each a weight token, the float
  it reads as, and a name. They state which streams the properties below are about.
\<close>

fun sum_form :: "string list \<Rightarrow> string list" where
  "sum_form [] = []"
| "sum_form [p] = [p]"
| "sum_form (p # q # ps) = p # ''+'' # sum_form (q # ps)"

fun weighted_form :: "(string \<times> 'f \<times> string) list \<Rightarrow> string list" where
  "weighted_form [] = []"
| "weighted_form [(wt, w, p)] = [wt, ''*'', p]"
| "weighted_form ((wt, w, p) # g # gs) = wt # ''*'' # p # ''+'' # weighted_form (g # gs)"

section \<open>Properties\<close>

subsection \<open>Tokens and lookups\<close>

lemma split_from_nonempty: "t \<in> set (split_from cur s) \<Longrightarrow> t \<noteq> []"
  by (induction s arbitrary: cur) (auto split: if_splits)

lemma split_nonempty: "t \<in> set (split s) \<Longrightarrow> t \<noteq> []"
  unfolding split_def by (rule split_from_nonempty)

lemma cmp_keys: "cmp \<in> set (keys COMPARISON_OPS) \<longleftrightarrow> cmp = ''<='' \<or> cmp = ''>=''"
  by (auto simp: keys_def COMPARISON_OPS_def)

lemma getitem_cmp:
  "getitem COMPARISON_OPS ''<='' = Inr LEQ" "getitem COMPARISON_OPS ''>='' = Inr GEQ"
  by (simp_all add: getitem_def COMPARISON_OPS_def)

lemma mem_keys: "map_of d k = Some v \<Longrightarrow> k \<in> set (keys d)"
  unfolding keys_def by (metis map_of_SomeD image_eqI fst_conv set_map)

lemma getitem_Some: "map_of d k = Some v \<Longrightarrow> getitem d k = Inr v"
  by (simp add: getitem_def)

lemma split_from_token:
  "\<forall>c\<in>set t. \<not> isspace c \<Longrightarrow> split_from cur (t @ rest) = split_from (cur @ t) rest"
  by (induction t arbitrary: cur) simp_all

lemma split_three_tokens:
  assumes "a \<noteq> []" "b \<noteq> []" "cmp \<noteq> []"
    and "\<forall>c\<in>set a. \<not> isspace c" "\<forall>c\<in>set b. \<not> isspace c" "\<forall>c\<in>set cmp. \<not> isspace c"
  shows "split (a @ CHR '' '' # cmp @ CHR '' '' # b) = [a, cmp, b]"
proof -
  have sp: "isspace (CHR '' '')" by (simp add: isspace_def)
  have "split_from [] (b @ []) = split_from ([] @ b) []"
    using assms(5) by (rule split_from_token)
  then have b: "split_from [] b = [b]" using assms(2) by simp
  have "split_from [] (cmp @ CHR '' '' # b) = split_from ([] @ cmp) (CHR '' '' # b)"
    using assms(6) by (rule split_from_token)
  then have c: "split_from [] (cmp @ CHR '' '' # b) = [cmp, b]"
    using assms(3) sp b by simp
  have "split_from [] (a @ CHR '' '' # cmp @ CHR '' '' # b)
        = split_from ([] @ a) (CHR '' '' # cmp @ CHR '' '' # b)"
    using assms(4) by (rule split_from_token)
  then show ?thesis
    unfolding split_def using assms(1) sp c by simp
qed

subsection \<open>Order constraints\<close>

lemma order_const_three: "order_const [a, cmp, b] \<longleftrightarrow> cmp = ''<='' \<or> cmp = ''>=''"
  by (simp add: order_const_def cmp_keys)

lemma order_tokens:
  assumes "map_of params a = Some pa" "map_of params b = Some pb"
  shows "constraint_from_tokens pyfloat [a, ''<='', b] params = Inr (OrderConstraint pa pb)"
    and "constraint_from_tokens pyfloat [a, ''>='', b] params = Inr (OrderConstraint pb pa)"
  using assms mem_keys[OF assms(1)] mem_keys[OF assms(2)]
  by (simp_all add: constraint_from_tokens_def order_const_three getitem_cmp getitem_Some)

text \<open>
  C1. A constraint string whose token stream is \<open>a <= b\<close> or \<open>a >= b\<close>, with
  \<open>a\<close> and \<open>b\<close> keys of the known parameters, parses to an order constraint that
  reads lower \<open>\<le>\<close> upper: \<open>a <= b\<close> gives lower \<open>a\<close> and upper \<open>b\<close>, and
  \<open>a >= b\<close> gives lower \<open>b\<close> and upper \<open>a\<close>. This holds for every string that
  splits into these three tokens, and so for the strings \<open>a <= b\<close> and \<open>a >= b\<close>
  themselves whenever the two names are non-empty and free of whitespace.
\<close>

theorem order_constraint_normalized:
  assumes "map_of params a = Some pa" and "map_of params b = Some pb"
  shows "(split s = [a, cmp, b]
          \<longrightarrow> (cmp = ''<='' \<longrightarrow>
                 constraint_from_str pyfloat s params = Inr (OrderConstraint pa pb))
              \<and> (cmp = ''>='' \<longrightarrow>
                 constraint_from_str pyfloat s params = Inr (OrderConstraint pb pa)))
       \<and> (a \<noteq> [] \<and> b \<noteq> [] \<and> (\<forall>c\<in>set (a @ b). \<not> isspace c)
          \<longrightarrow> constraint_from_str pyfloat (a @ '' <= '' @ b) params
                = Inr (OrderConstraint pa pb)
              \<and> constraint_from_str pyfloat (a @ '' >= '' @ b) params
                = Inr (OrderConstraint pb pa))"
proof (intro conjI impI)
  assume "split s = [a, cmp, b]" "cmp = ''<=''"
  with assms show "constraint_from_str pyfloat s params = Inr (OrderConstraint pa pb)"
    by (simp add: constraint_from_str_def order_tokens)
next
  assume "split s = [a, cmp, b]" "cmp = ''>=''"
  with assms show "constraint_from_str pyfloat s params = Inr (OrderConstraint pb pa)"
    by (simp add: constraint_from_str_def order_tokens)
next
  assume t: "a \<noteq> [] \<and> b \<noteq> [] \<and> (\<forall>c\<in>set (a @ b). \<not> isspace c)"
  then have "split (a @ CHR '' '' # ''<='' @ CHR '' '' # b) = [a, ''<='', b]"
    by (intro split_three_tokens) (simp_all add: isspace_def)
  with assms show "constraint_from_str pyfloat (a @ '' <= '' @ b) params
                = Inr (OrderConstraint pa pb)"
    by (simp add: constraint_from_str_def order_tokens)
next
  assume t: "a \<noteq> [] \<and> b \<noteq> [] \<and> (\<forall>c\<in>set (a @ b). \<not> isspace c)"
  then have "split (a @ CHR '' '' # ''>='' @ CHR '' '' # b) = [a, ''>='', b]"
    by (intro split_three_tokens) (simp_all add: isspace_def)
  with assms show "constraint_from_str pyfloat (a @ '' >= '' @ b) params
                = Inr (OrderConstraint pb pa)"
    by (simp add: constraint_from_str_def order_tokens)
qed

theorem order_constraint_normalized_witness:
  "split ''x1 >= x2'' = [''x1'', ''>='', ''x2'']
   \<and> split ''x1 <= x2'' = [''x1'', ''<='', ''x2'']
   \<and> map_of [(''x1'', 1::nat), (''x2'', 2)] ''x1'' = Some 1
   \<and> map_of [(''x1'', 1::nat), (''x2'', 2)] ''x2'' = Some 2
   \<and> list_all (\<lambda>c. \<not> isspace c) (''x1'' @ ''x2'')
   \<and> constraint_from_str decimal_float ''x1 >= x2'' [(''x1'', 1::nat), (''x2'', 2)]
       = Inr (OrderConstraint 2 1)
   \<and> constraint_from_str decimal_float ''x1 <= x2'' [(''x1'', 1::nat), (''x2'', 2)]
       = Inr (OrderConstraint 1 2)"
proof -
  have g: "split ''x1 >= x2'' = [''x1'', ''>='', ''x2'']"
    by (simp add: split_def isspace_def)
  have l: "split ''x1 <= x2'' = [''x1'', ''<='', ''x2'']"
    by (simp add: split_def isspace_def)
  have a: "map_of [(''x1'', 1::nat), (''x2'', 2)] ''x1'' = Some 1" by simp
  have b: "map_of [(''x1'', 1::nat), (''x2'', 2)] ''x2'' = Some 2" by simp
  have n: "list_all (\<lambda>c. \<not> isspace c) (''x1'' @ ''x2'')" by (simp add: isspace_def)
  from order_constraint_normalized [OF a b, of "''x1 >= x2''" "''>=''" decimal_float]
       order_constraint_normalized [OF a b, of "''x1 <= x2''" "''<=''" decimal_float] g l a b n
  show ?thesis by (simp add: isspace_def)
qed

subsection \<open>Shapes, loops and dictionaries\<close>

lemma shape_tail:
  "order_const (ts @ [cmp, bd]) \<longleftrightarrow> length ts = 1 \<and> cmp \<in> set (keys COMPARISON_OPS)"
  "sum_const (ts @ [cmp, bd]) \<longleftrightarrow>
     length ts \<ge> 3 \<and> length ts mod 2 = 1 \<and> cmp \<in> set (keys COMPARISON_OPS)
     \<and> ''*'' \<notin> set (ts @ [cmp, bd])"
  "parameter_const (ts @ [cmp, bd]) \<longleftrightarrow>
     length ts \<ge> 3 \<and> length ts mod 2 = 1 \<and> cmp \<in> set (keys COMPARISON_OPS)
     \<and> ''*'' \<in> set (ts @ [cmp, bd])"
  by (auto simp: order_const_def sum_const_def parameter_const_def nth_append)

lemma length_sum_form: "names \<noteq> [] \<Longrightarrow> length (sum_form names) = 2 * length names - 1"
  by (induction names rule: sum_form.induct) auto

lemma sum_loop_form:
  "idx mod 2 = 0 \<Longrightarrow> set names \<subseteq> set pn \<Longrightarrow>
   sum_loop pn idx (sum_form names) used = Inr (used @ names)"
proof (induction names arbitrary: idx used rule: sum_form.induct)
  case 1
  then show ?case by simp
next
  case (2 p)
  then show ?case by simp
next
  case (3 p q ps)
  have "(idx + 1) mod 2 \<noteq> 0" "(idx + 1 + 1) mod 2 = 0"
    using "3.prems"(1) by presburger+
  with 3 show ?case by simp
qed

lemma map_raise_getitem:
  "set ks \<subseteq> set (keys d) \<Longrightarrow> map_raise (getitem d) ks = Inr (map (\<lambda>k. the (map_of d k)) ks)"
proof (induction ks)
  case Nil
  then show ?case by simp
next
  case (Cons k ks)
  then have "k \<in> fst ` set d" by (simp add: keys_def)
  then obtain v where "map_of d k = Some v"
    by (metis map_of_eq_None_iff not_Some_eq)
  with Cons show ?case by (simp add: getitem_def)
qed

lemma lookup_filter_keys:
  "distinct (map fst d) \<Longrightarrow>
   map (\<lambda>k. the (map_of d k)) (filter P (map fst d)) = map snd (filter (\<lambda>kv. P (fst kv)) d)"
proof (induction d)
  case Nil
  then show ?case by simp
next
  case (Cons kv d)
  obtain k v where kv: "kv = (k, v)" by (cases kv)
  from Cons.prems kv have nk: "k \<notin> set (map fst d)" and dd: "distinct (map fst d)" by auto
  have "map (\<lambda>k'. the (map_of (kv # d) k')) (filter P (map fst d))
        = map (\<lambda>k'. the (map_of d k')) (filter P (map fst d))"
    using nk kv by (intro map_cong) auto
  with Cons.IH[OF dd] kv show ?case by simp
qed

lemma sum_tokens:
  assumes dist: "distinct (keys params)"
    and len: "length names \<ge> 2"
    and known: "set names \<subseteq> set (keys params)"
    and nostar: "''*'' \<notin> set (sum_form names @ [cmp, bd])"
    and cmp: "cmp = ''<='' \<or> cmp = ''>=''"
    and bd: "pyfloat bd = Some b"
  shows "constraint_from_tokens pyfloat (sum_form names @ [cmp, bd]) params
         = Inr (SumConstraint (map snd (filter (\<lambda>kv. fst kv \<in> set names) params))
                  (cmp = ''<='') b)"
proof -
  let ?ts = "sum_form names"
  let ?tokens = "?ts @ [cmp, bd]"
  from len have ne: "names \<noteq> []" by auto
  have lts: "length ?ts = 2 * length names - 1" by (rule length_sum_form[OF ne])
  have odd: "length ?ts mod 2 = 1" "length ?ts \<ge> 3"
    using lts len by presburger+
  have sc: "sum_const ?tokens"
    using odd nostar cmp by (simp only: shape_tail cmp_keys) simp
  have noc: "\<not> order_const ?tokens"
    using odd by (simp only: shape_tail) simp
  have loop: "sum_loop (keys params) 0 ?ts [] = Inr names"
    using sum_loop_form[of 0 names "keys params" "[]"] known by simp
  have sub: "set (filter (\<lambda>p. p \<in> set names) (keys params)) \<subseteq> set (keys params)" by auto
  have ps: "map_raise (getitem params) (filter (\<lambda>p. p \<in> set names) (keys params))
            = Inr (map snd (filter (\<lambda>kv. fst kv \<in> set names) params))"
    using map_raise_getitem[OF sub] lookup_filter_keys[of params "\<lambda>p. p \<in> set names"] dist
    by (simp add: keys_def)
  have g: "getitem COMPARISON_OPS cmp = Inr (if cmp = ''<='' then LEQ else GEQ)"
    using cmp by (auto simp: getitem_cmp)
  show ?thesis
    by (simp add: constraint_from_tokens_def sc noc bd loop ps g nth_append)
qed

lemma length_weighted_form:
  "groups \<noteq> [] \<Longrightarrow> length (weighted_form groups) = 4 * length groups - 1"
  by (induction groups rule: weighted_form.induct) auto

lemma star_weighted_form: "groups \<noteq> [] \<Longrightarrow> ''*'' \<in> set (weighted_form groups)"
  by (induction groups rule: weighted_form.induct) auto

lemma weight_loop_form:
  "idx mod 4 = 0 \<Longrightarrow> \<forall>(wt, w, p) \<in> set groups. pyfloat wt = Some w \<and> p \<in> set pn \<Longrightarrow>
   weight_loop pyfloat pn idx (weighted_form groups) ps ws
   = Inr (ps @ map (\<lambda>(wt, w, p). p) groups, ws @ map (\<lambda>(wt, w, p). w) groups)"
proof (induction groups arbitrary: idx ps ws rule: weighted_form.induct)
  case 1
  then show ?case by simp
next
  case (2 wt w p)
  have "(idx + 1) mod 4 = 1" "(idx + 1 + 1) mod 4 = 2"
    using "2.prems"(1) by presburger+
  with 2 show ?case by simp
next
  case (3 wt w p g gs)
  have m: "(idx + 1) mod 4 = 1" "(idx + 1 + 1) mod 4 = 2" "(idx + 1 + 1 + 1) mod 4 = 3"
    "(idx + 1 + 1 + 1 + 1) mod 4 = 0"
    using "3.prems"(1) by presburger+
  have rest: "\<forall>(wt, w, p) \<in> set (g # gs). pyfloat wt = Some w \<and> p \<in> set pn"
    using "3.prems"(2) by simp
  from "3.prems" have hd: "pyfloat wt = Some w" "p \<in> set pn" by auto
  show ?case
    using "3.IH"[OF m(4) rest] "3.prems"(1) m(1,2,3) hd by simp
qed

lemma weighted_tokens:
  assumes ne: "groups \<noteq> []"
    and ok: "\<forall>(wt, w, p) \<in> set groups. pyfloat wt = Some w \<and> p \<in> set (keys params)"
    and cmp: "cmp = ''<='' \<or> cmp = ''>=''"
    and bd: "pyfloat bd = Some b"
  shows "constraint_from_tokens pyfloat (weighted_form groups @ [cmp, bd]) params
         = Inr (ParameterConstraint (dict (map (\<lambda>(wt, w, p). (p, w)) groups)) b)"
proof -
  let ?ts = "weighted_form groups"
  let ?tokens = "?ts @ [cmp, bd]"
  have lts: "length ?ts = 4 * length groups - 1" by (rule length_weighted_form[OF ne])
  from ne have "length groups \<ge> 1" by (cases groups) auto
  with lts have odd: "length ?ts mod 2 = 1" "length ?ts \<ge> 3" by presburger+
  have star: "''*'' \<in> set ?tokens" using star_weighted_form[OF ne] by simp
  have pc: "parameter_const ?tokens"
    using odd star cmp by (simp add: shape_tail cmp_keys)
  have nsc: "\<not> sum_const ?tokens"
    using star by (simp add: shape_tail)
  have noc: "\<not> order_const ?tokens"
    using odd by (simp add: shape_tail)
  have loop: "weight_loop pyfloat (keys params) 0 ?ts [] []
              = Inr (map (\<lambda>(wt, w, p). p) groups, map (\<lambda>(wt, w, p). w) groups)"
    using weight_loop_form[of 0 groups pyfloat "keys params" "[]" "[]"] ok by simp
  have z: "zip (map (\<lambda>(wt, w, p). p) groups) (map (\<lambda>(wt, w, p). w) groups)
           = map (\<lambda>(wt, w, p). (p, w)) groups"
    by (induction groups) auto
  show ?thesis
    by (simp add: constraint_from_tokens_def pc nsc noc bd loop z nth_append)
qed

lemma weight_loop_step:
  "(\<exists>m. weight_loop pyfloat pn idx (t # ts) ps ws = Inl (ValueError m)
       \<or> weight_loop pyfloat pn idx (t # ts) ps ws = Inl (AssertionError m))
   \<or> (\<exists>ps' ws'. weight_loop pyfloat pn idx (t # ts) ps ws
                   = weight_loop pyfloat pn (idx + 1) ts ps' ws')"
proof (cases "pyfloat t")
  case None
  then show ?thesis by (simp del: One_nat_def) blast
next
  case (Some w)
  then show ?thesis by (simp del: One_nat_def) blast
qed

lemma weight_loop_head:
  assumes "(idx mod 4 = 0 \<and> pyfloat t = None)
           \<or> (idx mod 4 = 1 \<and> t \<noteq> ''*'')
           \<or> (idx mod 4 = 2 \<and> t \<notin> set pn)
           \<or> (idx mod 4 = 3 \<and> t \<noteq> ''+'')"
  shows "\<exists>m. weight_loop pyfloat pn idx (t # ts) ps ws = Inl (ValueError m)
            \<or> weight_loop pyfloat pn idx (t # ts) ps ws = Inl (AssertionError m)"
  using assms
proof (elim disjE conjE)
  assume "idx mod 4 = 0" "pyfloat t = None"
  then show ?thesis by simp
next
  assume "idx mod 4 = 1" "t \<noteq> ''*''"
  then show ?thesis by simp
next
  assume "idx mod 4 = 2" "t \<notin> set pn"
  then show ?thesis by simp
next
  assume "idx mod 4 = 3" "t \<noteq> ''+''"
  then show ?thesis by simp
qed

lemma weight_loop_violation:
  assumes "\<exists>i<length ts.
             ((idx + i) mod 4 = 0 \<and> pyfloat (ts ! i) = None)
           \<or> ((idx + i) mod 4 = 1 \<and> ts ! i \<noteq> ''*'')
           \<or> ((idx + i) mod 4 = 2 \<and> ts ! i \<notin> set pn)
           \<or> ((idx + i) mod 4 = 3 \<and> ts ! i \<noteq> ''+'')"
  shows "\<exists>m. weight_loop pyfloat pn idx ts ps ws = Inl (ValueError m)
            \<or> weight_loop pyfloat pn idx ts ps ws = Inl (AssertionError m)"
proof -
  define bad where "bad j t \<longleftrightarrow>
      (j mod 4 = 0 \<and> pyfloat t = None) \<or> (j mod 4 = 1 \<and> t \<noteq> ''*'')
    \<or> (j mod 4 = 2 \<and> t \<notin> set pn) \<or> (j mod 4 = 3 \<and> t \<noteq> ''+'')" for j :: nat and t
  define fails where "fails r \<longleftrightarrow> (\<exists>m. r = Inl (ValueError m) \<or> r = Inl (AssertionError m))"
    for r :: "error + (string list \<times> 'a list)"
  have head: "bad j t \<Longrightarrow> fails (weight_loop pyfloat pn j (t # us) qs vs)" for j t us qs vs
    unfolding bad_def fails_def by (rule weight_loop_head)
  have step: "fails (weight_loop pyfloat pn j (t # us) qs vs)
       \<or> (\<exists>qs' vs'. weight_loop pyfloat pn j (t # us) qs vs
                   = weight_loop pyfloat pn (j + 1) us qs' vs')" for j t us qs vs
    unfolding fails_def by (rule weight_loop_step)
  have main: "\<exists>i<length us. bad (j + i) (us ! i) \<Longrightarrow> fails (weight_loop pyfloat pn j us qs vs)"
    for us j qs vs
  proof (induction us arbitrary: j qs vs)
    case Nil
    then show ?case by simp
  next
    case (Cons t us)
    from Cons.prems obtain i where i: "i < length (t # us)" "bad (j + i) ((t # us) ! i)"
      by blast
    show ?case
    proof (cases i)
      case 0
      with i(2) have "bad j t" by simp
      then show ?thesis by (rule head)
    next
      case (Suc k)
      with i have "k < length us" "bad (j + 1 + k) (us ! k)" by simp_all
      then have viol: "\<exists>i<length us. bad (j + 1 + i) (us ! i)" by blast
      from step[of j t us qs vs] show ?thesis
      proof
        assume "fails (weight_loop pyfloat pn j (t # us) qs vs)"
        then show ?thesis .
      next
        assume "\<exists>qs' vs'. weight_loop pyfloat pn j (t # us) qs vs
                   = weight_loop pyfloat pn (j + 1) us qs' vs'"
        then obtain qs' vs' where e: "weight_loop pyfloat pn j (t # us) qs vs
                   = weight_loop pyfloat pn (j + 1) us qs' vs'" by blast
        from Cons.IH[OF viol, of qs' vs'] show ?thesis unfolding e .
      qed
    qed
  qed
  from assms have "\<exists>i<length ts. bad (idx + i) (ts ! i)" unfolding bad_def .
  from main[OF this, of ps ws] show ?thesis unfolding fails_def .
qed

lemma weighted_violation_tokens:
  assumes len: "length ts \<ge> 3" and star: "''*'' \<in> set (ts @ [cmp, bd])"
    and viol: "\<exists>i<length ts.
             (i mod 4 = 0 \<and> pyfloat (ts ! i) = None)
           \<or> (i mod 4 = 1 \<and> ts ! i \<noteq> ''*'')
           \<or> (i mod 4 = 2 \<and> ts ! i \<notin> set (keys params))
           \<or> (i mod 4 = 3 \<and> ts ! i \<noteq> ''+'')"
  shows "\<exists>m. constraint_from_tokens pyfloat (ts @ [cmp, bd]) params = Inl (ValueError m)
           \<or> constraint_from_tokens pyfloat (ts @ [cmp, bd]) params = Inl (AssertionError m)"
proof -
  let ?tokens = "ts @ [cmp, bd]"
  have nsc: "\<not> sum_const ?tokens" using star by (simp add: shape_tail)
  have noc: "\<not> order_const ?tokens" using len by (simp add: shape_tail)
  from viol have "\<exists>i<length ts.
             ((0 + i) mod 4 = 0 \<and> pyfloat (ts ! i) = None)
           \<or> ((0 + i) mod 4 = 1 \<and> ts ! i \<noteq> ''*'')
           \<or> ((0 + i) mod 4 = 2 \<and> ts ! i \<notin> set (keys params))
           \<or> ((0 + i) mod 4 = 3 \<and> ts ! i \<noteq> ''+'')" by simp
  from weight_loop_violation[OF this, of "[]" "[]"]
  obtain m where m: "weight_loop pyfloat (keys params) 0 ts [] [] = Inl (ValueError m)
            \<or> weight_loop pyfloat (keys params) 0 ts [] [] = Inl (AssertionError m)" by blast
  show ?thesis
  proof (cases "parameter_const ?tokens")
    case False
    with nsc noc show ?thesis by (simp add: constraint_from_tokens_def)
  next
    case True
    show ?thesis
    proof (cases "pyfloat bd")
      case None
      with True nsc noc show ?thesis by (simp add: constraint_from_tokens_def)
    next
      case (Some b)
      with True nsc noc m show ?thesis
        by (auto simp add: constraint_from_tokens_def nth_append)
    qed
  qed
qed

lemma operator_ignored_tokens:
  assumes "length ts \<ge> 3" and "''*'' \<in> set ts"
  shows "constraint_from_tokens pyfloat (ts @ [''>='', bd]) params
         = constraint_from_tokens pyfloat (ts @ [''<='', bd]) params"
proof -
  have a: "\<not> sum_const (ts @ [''>='', bd])" "\<not> sum_const (ts @ [''<='', bd])"
    "\<not> order_const (ts @ [''>='', bd])" "\<not> order_const (ts @ [''<='', bd])"
    using assms by (simp_all add: shape_tail)
  have b: "parameter_const (ts @ [''>='', bd]) = parameter_const (ts @ [''<='', bd])"
    by (simp add: shape_tail cmp_keys)
  show ?thesis
    by (cases "parameter_const (ts @ [''<='', bd])")
       (simp_all add: constraint_from_tokens_def a b nth_append Let_def split: option.splits)
qed

lemma setitem_fresh: "k \<notin> fst ` set d \<Longrightarrow> setitem d k v = d @ [(k, v)]"
  by (induction d) auto

lemma foldl_setitem_distinct:
  "distinct (map fst (d @ ps)) \<Longrightarrow> foldl (\<lambda>d (k, v). setitem d k v) d ps = d @ ps"
proof (induction ps arbitrary: d)
  case Nil
  then show ?case by simp
next
  case (Cons kv ps)
  obtain k v where kv: "kv = (k, v)" by (cases kv)
  from Cons.prems kv have fresh: "k \<notin> fst ` set d" by auto
  from Cons.prems kv have "distinct (map fst ((d @ [(k, v)]) @ ps))" by simp
  from Cons.IH[OF this] show ?case by (simp add: kv setitem_fresh[OF fresh])
qed

lemma dict_distinct: "distinct (map fst ps) \<Longrightarrow> dict ps = ps"
  unfolding dict_def using foldl_setitem_distinct[of "[]" ps] by simp

lemma decimal_examples:
  "decimal_float ''0.5'' = Some (1 / 2)" "decimal_float ''-1.0'' = Some (- 1)"
  "decimal_float ''3'' = Some 3" "decimal_float ''5'' = Some 5"
  "decimal_float ''10'' = Some 10" "decimal_float ''80'' = Some 80"
  "decimal_float ''x1'' = None"
  by (simp_all add: decimal_float_def digit_value_def)

subsection \<open>Sum constraints\<close>

lemma split_sum_example:
  "split ''x1 + x2 <= 10'' = sum_form [''x1'', ''x2''] @ [''<='', ''10'']"
  by (simp add: split_def isspace_def)

text \<open>
  C3. For a well-formed sum constraint \<open>p1 + ... + pn <=|>= bound\<close> over the known
  parameters, the parameter list of the returned sum constraint is the known parameters
  in their own iteration order, restricted to the names of the string, whatever the
  order of the names in the string; the flag is true exactly for \<open><=\<close> and the bound
  is the float of the last token. In particular \<open>x1 + x2 <= 10\<close> over \<open>x1, x2\<close> gives
  the parameters of \<open>x1, x2\<close>, an upper bound, and the float of \<open>10\<close>.
\<close>

theorem sum_constraint_order:
  "(distinct (keys params) \<and> split s = sum_form names @ [cmp, bd] \<and> 2 \<le> length names
      \<and> set names \<subseteq> set (keys params) \<and> ''*'' \<notin> set (split s)
      \<and> (cmp = ''<='' \<or> cmp = ''>='') \<and> pyfloat bd = Some b
    \<longrightarrow> constraint_from_str pyfloat s params
        = Inr (SumConstraint (map snd (filter (\<lambda>kv. fst kv \<in> set names) params))
                 (cmp = ''<='') b))
   \<and> (pyfloat ''10'' = Some ten
    \<longrightarrow> constraint_from_str pyfloat ''x1 + x2 <= 10'' [(''x1'', p1), (''x2'', p2)]
        = Inr (SumConstraint [p1, p2] True ten))"
proof (intro conjI impI)
  assume a: "distinct (keys params) \<and> split s = sum_form names @ [cmp, bd]
      \<and> 2 \<le> length names
      \<and> set names \<subseteq> set (keys params) \<and> ''*'' \<notin> set (split s)
      \<and> (cmp = ''<='' \<or> cmp = ''>='') \<and> pyfloat bd = Some b"
  then have "''*'' \<notin> set (sum_form names @ [cmp, bd])" by metis
  with a sum_tokens[of params names cmp bd pyfloat b]
  show "constraint_from_str pyfloat s params
        = Inr (SumConstraint (map snd (filter (\<lambda>kv. fst kv \<in> set names) params))
                 (cmp = ''<='') b)"
    by (simp add: constraint_from_str_def)
next
  assume t: "pyfloat ''10'' = Some ten"
  have "constraint_from_tokens pyfloat (sum_form [''x1'', ''x2''] @ [''<='', ''10''])
          [(''x1'', p1), (''x2'', p2)]
        = Inr (SumConstraint
                (map snd (filter (\<lambda>kv. fst kv \<in> set [''x1'', ''x2''])
                   [(''x1'', p1), (''x2'', p2)])) (''<='' = ''<='') ten)"
    by (rule sum_tokens) (simp_all add: keys_def t)
  then show "constraint_from_str pyfloat ''x1 + x2 <= 10'' [(''x1'', p1), (''x2'', p2)]
        = Inr (SumConstraint [p1, p2] True ten)"
    by (simp add: constraint_from_str_def split_sum_example)
qed

theorem sum_constraint_order_witness:
  "distinct (keys [(''x1'', 1::nat), (''x2'', 2)])
   \<and> split ''x2 + x1 >= 10'' = sum_form [''x2'', ''x1''] @ [''>='', ''10'']
   \<and> 2 \<le> length [''x2'', ''x1'']
   \<and> set [''x2'', ''x1''] \<subseteq> set (keys [(''x1'', 1::nat), (''x2'', 2)])
   \<and> ''*'' \<notin> set (split ''x2 + x1 >= 10'')
   \<and> decimal_float ''10'' = Some 10
   \<and> constraint_from_str decimal_float ''x2 + x1 >= 10'' [(''x1'', 1::nat), (''x2'', 2)]
       = Inr (SumConstraint [1, 2] False 10)
   \<and> constraint_from_str decimal_float ''x1 + x2 <= 10'' [(''x1'', 1::nat), (''x2'', 2)]
       = Inr (SumConstraint [1, 2] True 10)"
proof -
  have s: "split ''x2 + x1 >= 10'' = sum_form [''x2'', ''x1''] @ [''>='', ''10'']"
    by (simp add: split_def isspace_def)
  have d: "distinct (keys [(''x1'', 1::nat), (''x2'', 2)])" by (simp add: keys_def)
  have k: "set [''x2'', ''x1''] \<subseteq> set (keys [(''x1'', 1::nat), (''x2'', 2)])"
    by (simp add: keys_def)
  have n: "''*'' \<notin> set (split ''x2 + x1 >= 10'')" by (simp add: s)
  have f: "decimal_float ''10'' = Some 10"
    by (simp add: decimal_float_def digit_value_def)
  from sum_constraint_order [of "[(''x1'', 1::nat), (''x2'', 2)]" "''x2 + x1 >= 10''"
      "[''x2'', ''x1'']" "''>=''" "''10''" decimal_float 10 10 "1::nat" "2::nat"] s d k n f
  show ?thesis by simp
qed

subsection \<open>Weighted constraints\<close>

lemma split_weighted_example:
  "split ''0.5 * x1 + -1.0 * x2 <= 3''
   = weighted_form [(''0.5'', a, ''x1''), (''-1.0'', c, ''x2'')] @ [''<='', ''3'']"
  by (simp add: split_def isspace_def)

text \<open>
  C4. For a well-formed weighted constraint, whose tokens before the operator are groups
  of a numeric weight (possibly negative), \<open>*\<close>, a known parameter name, and \<open>+\<close>
  between groups, the parser returns a weighted constraint that maps each named
  parameter to its weight, with the float of the last token as bound. In particular
  \<open>0.5 * x1 + -1.0 * x2 <= 3\<close> over \<open>x1, x2\<close> gives \<open>x1\<close> with the float of
  \<open>0.5\<close>, \<open>x2\<close> with the float of \<open>-1.0\<close>, and the float of \<open>3\<close> as bound. A
  string with a \<open>*\<close> token and at least three tokens before the operator that has, at
  some position before the operator, a non-numeric weight, a wrong literal or an unknown
  name, raises a \<^verbatim>\<open>ValueError\<close> or an \<^verbatim>\<open>AssertionError\<close>.
\<close>

theorem weighted_constraint_parse:
  "(groups \<noteq> [] \<and> split s = weighted_form groups @ [cmp, bd]
      \<and> (\<forall>(wt, w, p) \<in> set groups. pyfloat wt = Some w \<and> p \<in> set (keys params))
      \<and> (cmp = ''<='' \<or> cmp = ''>='') \<and> pyfloat bd = Some b
    \<longrightarrow> constraint_from_str pyfloat s params
          = Inr (ParameterConstraint (dict (map (\<lambda>(wt, w, p). (p, w)) groups)) b)
        \<and> (distinct (map (\<lambda>(wt, w, p). p) groups)
           \<longrightarrow> dict (map (\<lambda>(wt, w, p). (p, w)) groups) = map (\<lambda>(wt, w, p). (p, w)) groups))
   \<and> (pyfloat ''0.5'' = Some a \<and> pyfloat ''-1.0'' = Some c \<and> pyfloat ''3'' = Some three
    \<longrightarrow> constraint_from_str pyfloat ''0.5 * x1 + -1.0 * x2 <= 3'' [(''x1'', p1), (''x2'', p2)]
        = Inr (ParameterConstraint [(''x1'', a), (''x2'', c)] three))
   \<and> (split s' = ts @ [cmp', bd'] \<and> 3 \<le> length ts \<and> ''*'' \<in> set (split s')
      \<and> (\<exists>i<length ts.
             (i mod 4 = 0 \<and> pyfloat (ts ! i) = None)
           \<or> (i mod 4 = 1 \<and> ts ! i \<noteq> ''*'')
           \<or> (i mod 4 = 2 \<and> ts ! i \<notin> set (keys params'))
           \<or> (i mod 4 = 3 \<and> ts ! i \<noteq> ''+''))
    \<longrightarrow> (\<exists>m. constraint_from_str pyfloat s' params' = Inl (ValueError m)
           \<or> constraint_from_str pyfloat s' params' = Inl (AssertionError m)))"
proof (intro conjI impI)
  assume a: "groups \<noteq> [] \<and> split s = weighted_form groups @ [cmp, bd]
      \<and> (\<forall>(wt, w, p) \<in> set groups. pyfloat wt = Some w \<and> p \<in> set (keys params))
      \<and> (cmp = ''<='' \<or> cmp = ''>='') \<and> pyfloat bd = Some b"
  with weighted_tokens[of groups pyfloat params cmp bd b]
  show "constraint_from_str pyfloat s params
          = Inr (ParameterConstraint (dict (map (\<lambda>(wt, w, p). (p, w)) groups)) b)"
    by (simp add: constraint_from_str_def)
next
  assume d: "distinct (map (\<lambda>(wt, w, p). p) groups)"
  have "map fst (map (\<lambda>(wt, w, p). (p, w)) groups) = map (\<lambda>(wt, w, p). p) groups"
    by (induction groups) auto
  with d have "distinct (map fst (map (\<lambda>(wt, w, p). (p, w)) groups))" by (simp only:)
  then show "dict (map (\<lambda>(wt, w, p). (p, w)) groups) = map (\<lambda>(wt, w, p). (p, w)) groups"
    by (rule dict_distinct)
next
  assume f: "pyfloat ''0.5'' = Some a \<and> pyfloat ''-1.0'' = Some c \<and> pyfloat ''3'' = Some three"
  have "constraint_from_tokens pyfloat
          (weighted_form [(''0.5'', a, ''x1''), (''-1.0'', c, ''x2'')] @ [''<='', ''3''])
          [(''x1'', p1), (''x2'', p2)]
        = Inr (ParameterConstraint
                (dict (map (\<lambda>(wt, w, p). (p, w)) [(''0.5'', a, ''x1''), (''-1.0'', c, ''x2'')]))
                three)"
    by (rule weighted_tokens) (simp_all add: keys_def f)
  then show "constraint_from_str pyfloat ''0.5 * x1 + -1.0 * x2 <= 3''
          [(''x1'', p1), (''x2'', p2)]
        = Inr (ParameterConstraint [(''x1'', a), (''x2'', c)] three)"
    by (simp add: constraint_from_str_def split_weighted_example[of a c] dict_def)
next
  assume v: "split s' = ts @ [cmp', bd'] \<and> 3 \<le> length ts \<and> ''*'' \<in> set (split s')
      \<and> (\<exists>i<length ts.
             (i mod 4 = 0 \<and> pyfloat (ts ! i) = None)
           \<or> (i mod 4 = 1 \<and> ts ! i \<noteq> ''*'')
           \<or> (i mod 4 = 2 \<and> ts ! i \<notin> set (keys params'))
           \<or> (i mod 4 = 3 \<and> ts ! i \<noteq> ''+''))"
  from v have s: "split s' = ts @ [cmp', bd']" by (rule conjunct1)
  from v have l: "3 \<le> length ts" by (rule conjunct2 [THEN conjunct1])
  from v have "''*'' \<in> set (split s')" by (rule conjunct2 [THEN conjunct2, THEN conjunct1])
  then have st': "''*'' \<in> set (ts @ [cmp', bd'])" unfolding s .
  from v have e: "\<exists>i<length ts.
             (i mod 4 = 0 \<and> pyfloat (ts ! i) = None)
           \<or> (i mod 4 = 1 \<and> ts ! i \<noteq> ''*'')
           \<or> (i mod 4 = 2 \<and> ts ! i \<notin> set (keys params'))
           \<or> (i mod 4 = 3 \<and> ts ! i \<noteq> ''+'')"
    by (rule conjunct2 [THEN conjunct2, THEN conjunct2])
  from weighted_violation_tokens[OF l st' e]
  show "\<exists>m. constraint_from_str pyfloat s' params' = Inl (ValueError m)
           \<or> constraint_from_str pyfloat s' params' = Inl (AssertionError m)"
    unfolding constraint_from_str_def s .
qed

theorem weighted_constraint_parse_witness:
  "split ''0.5 * x1 + -1.0 * x2 <= 3''
     = weighted_form [(''0.5'', 1 / 2 :: rat, ''x1''), (''-1.0'', - 1, ''x2'')] @ [''<='', ''3'']
   \<and> decimal_float ''0.5'' = Some (1 / 2) \<and> decimal_float ''-1.0'' = Some (- 1)
   \<and> ''x1'' \<in> set (keys [(''x1'', 1::nat), (''x2'', 2)])
   \<and> ''x2'' \<in> set (keys [(''x1'', 1::nat), (''x2'', 2)])
   \<and> decimal_float ''3'' = Some 3
   \<and> constraint_from_str decimal_float ''0.5 * x1 + -1.0 * x2 <= 3''
         [(''x1'', 1::nat), (''x2'', 2)]
       = Inr (ParameterConstraint [(''x1'', 1 / 2), (''x2'', - 1)] 3)
   \<and> split ''0.5 * x3 <= 3'' = [''0.5'', ''*'', ''x3''] @ [''<='', ''3'']
   \<and> ''x3'' \<notin> set (keys [(''x1'', 1::nat), (''x2'', 2)])
   \<and> (\<exists>m. constraint_from_str decimal_float ''0.5 * x3 <= 3'' [(''x1'', 1::nat), (''x2'', 2)]
             = Inl (ValueError m)
          \<or> constraint_from_str decimal_float ''0.5 * x3 <= 3'' [(''x1'', 1::nat), (''x2'', 2)]
             = Inl (AssertionError m))"
proof -
  let ?groups = "[(''0.5'', 1 / 2 :: rat, ''x1''), (''-1.0'', - 1, ''x2'')]"
  let ?params = "[(''x1'', 1::nat), (''x2'', 2)]"
  let ?ts = "[''0.5'', ''*'', ''x3'']"
  have s: "split ''0.5 * x1 + -1.0 * x2 <= 3'' = weighted_form ?groups @ [''<='', ''3'']"
    by (simp add: split_def isspace_def)
  have g: "\<forall>(wt, w, p) \<in> set ?groups. decimal_float wt = Some w \<and> p \<in> set (keys ?params)"
    by (simp add: decimal_examples keys_def)
  have b: "decimal_float ''3'' = Some 3" by (rule decimal_examples)
  have s': "split ''0.5 * x3 <= 3'' = ?ts @ [''<='', ''3'']"
    by (simp add: split_def isspace_def)
  have k: "''x3'' \<notin> set (keys ?params)" by (simp add: keys_def)
  have star: "''*'' \<in> set (split ''0.5 * x3 <= 3'')" by (simp add: s')
  have e: "\<exists>i<length ?ts.
             (i mod 4 = 0 \<and> decimal_float (?ts ! i) = None)
           \<or> (i mod 4 = 1 \<and> ?ts ! i \<noteq> ''*'')
           \<or> (i mod 4 = 2 \<and> ?ts ! i \<notin> set (keys ?params))
           \<or> (i mod 4 = 3 \<and> ?ts ! i \<noteq> ''+'')"
    by (rule exI[of _ 2]) (simp add: keys_def)
  have d: "distinct (map (\<lambda>(wt, w, p). p) ?groups)" by simp
  from weighted_constraint_parse [where groups = ?groups and pyfloat = decimal_float
      and s = "''0.5 * x1 + -1.0 * x2 <= 3''" and cmp = "''<=''" and bd = "''3''"
      and params = ?params and b = 3 and s' = "''0.5 * x3 <= 3''" and ts = ?ts
      and cmp' = "''<=''" and bd' = "''3''" and params' = ?params
      and a = "1 / 2" and c = "- 1" and three = 3 and ?p1.0 = "1::nat" and ?p2.0 = "2::nat"]
    s g b s' k star e d
  show ?thesis by simp
qed

subsection \<open>The string \<open>x1 * x2 <= 5\<close>\<close>

text \<open>
  The string \<open>x1 * x2 <= 5\<close> has five tokens, not four, and it passes the shape test
  as a weighted constraint: the parser does not reject it for its shape.
\<close>

theorem product_string_shape:
  "length (split ''x1 * x2 <= 5'') = 5
   \<and> \<not> even (length (split ''x1 * x2 <= 5''))
   \<and> parameter_const (split ''x1 * x2 <= 5'')
   \<and> constraint_from_str decimal_float ''x1 * x2 <= 5'' [(''x1'', 1::nat), (''x2'', 2)]
       \<noteq> Inl (ValueError ConstraintForm)"
  by (simp add: split_def isspace_def parameter_const_def constraint_from_str_def
      constraint_from_tokens_def order_const_def sum_const_def keys_def COMPARISON_OPS_def
      decimal_examples)

lemma split_product: "split ''x1 * x2 <= 5'' = [''x1'', ''*'', ''x2'', ''<='', ''5'']"
  by (simp add: split_def isspace_def)

text \<open>
  C5, amended. The string \<open>x1 * x2 <= 5\<close> is rejected: it has five tokens and the
  weighted shape, and the parser raises a \<^verbatim>\<open>ValueError\<close> because its first token
  \<open>x1\<close> is not a numeric weight.
\<close>

theorem product_string_rejected:
  "length (split ''x1 * x2 <= 5'') = 5 \<and> parameter_const (split ''x1 * x2 <= 5'')
   \<and> (pyfloat ''x1'' = None \<and> pyfloat ''5'' = Some b
      \<longrightarrow> constraint_from_str pyfloat ''x1 * x2 <= 5'' params
          = Inl (ValueError (WeightNotNumber ''x1'')))"
  by (simp add: split_product parameter_const_def constraint_from_str_def
      constraint_from_tokens_def order_const_def sum_const_def keys_def COMPARISON_OPS_def)

theorem product_string_rejected_witness:
  "decimal_float ''x1'' = None \<and> decimal_float ''5'' = Some 5
   \<and> constraint_from_str decimal_float ''x1 * x2 <= 5'' [(''x1'', 1::nat), (''x2'', 2)]
       = Inl (ValueError (WeightNotNumber ''x1''))"
  using product_string_rejected [of decimal_float 5 "[(''x1'', 1::nat), (''x2'', 2)]"]
  by (simp add: decimal_examples)

subsection \<open>The operator of a weighted constraint\<close>

text \<open>
  C10. For a string of the weighted shape, the parser never looks at the direction of
  the comparison operator: replacing \<open><=\<close> by \<open>>=\<close> gives the same result, and for
  a well-formed string both give the same weighted constraint, with the same mapping
  of names to weights and the same bound.
\<close>

theorem weighted_operator_ignored:
  "(split s = ts @ [''<='', bd] \<and> split s' = ts @ [''>='', bd] \<and> 3 \<le> length ts
      \<and> ''*'' \<in> set ts
    \<longrightarrow> constraint_from_str pyfloat s' params = constraint_from_str pyfloat s params)
   \<and> (groups \<noteq> [] \<and> split r = weighted_form groups @ [''<='', bnd]
      \<and> split r' = weighted_form groups @ [''>='', bnd]
      \<and> (\<forall>(wt, w, p) \<in> set groups. pyfloat wt = Some w \<and> p \<in> set (keys params))
      \<and> pyfloat bnd = Some b
    \<longrightarrow> constraint_from_str pyfloat r' params
          = Inr (ParameterConstraint (dict (map (\<lambda>(wt, w, p). (p, w)) groups)) b)
        \<and> constraint_from_str pyfloat r params
          = Inr (ParameterConstraint (dict (map (\<lambda>(wt, w, p). (p, w)) groups)) b))"
proof (intro conjI impI)
  assume a: "split s = ts @ [''<='', bd] \<and> split s' = ts @ [''>='', bd] \<and> 3 \<le> length ts
      \<and> ''*'' \<in> set ts"
  then have "3 \<le> length ts" "''*'' \<in> set ts" by simp_all
  from operator_ignored_tokens[OF this, of pyfloat bd params] a
  show "constraint_from_str pyfloat s' params = constraint_from_str pyfloat s params"
    by (simp add: constraint_from_str_def)
next
  assume a: "groups \<noteq> [] \<and> split r = weighted_form groups @ [''<='', bnd]
      \<and> split r' = weighted_form groups @ [''>='', bnd]
      \<and> (\<forall>(wt, w, p) \<in> set groups. pyfloat wt = Some w \<and> p \<in> set (keys params))
      \<and> pyfloat bnd = Some b"
  with weighted_tokens[of groups pyfloat params "''>=''" bnd b]
  show "constraint_from_str pyfloat r' params
          = Inr (ParameterConstraint (dict (map (\<lambda>(wt, w, p). (p, w)) groups)) b)"
    by (simp add: constraint_from_str_def)
next
  assume a: "groups \<noteq> [] \<and> split r = weighted_form groups @ [''<='', bnd]
      \<and> split r' = weighted_form groups @ [''>='', bnd]
      \<and> (\<forall>(wt, w, p) \<in> set groups. pyfloat wt = Some w \<and> p \<in> set (keys params))
      \<and> pyfloat bnd = Some b"
  with weighted_tokens[of groups pyfloat params "''<=''" bnd b]
  show "constraint_from_str pyfloat r params
          = Inr (ParameterConstraint (dict (map (\<lambda>(wt, w, p). (p, w)) groups)) b)"
    by (simp add: constraint_from_str_def)
qed

theorem weighted_operator_ignored_witness:
  "split ''0.5 * x1 + -1.0 * x2 <= 3''
     = [''0.5'', ''*'', ''x1'', ''+'', ''-1.0'', ''*'', ''x2''] @ [''<='', ''3'']
   \<and> split ''0.5 * x1 + -1.0 * x2 >= 3''
     = [''0.5'', ''*'', ''x1'', ''+'', ''-1.0'', ''*'', ''x2''] @ [''>='', ''3'']
   \<and> constraint_from_str decimal_float ''0.5 * x1 + -1.0 * x2 >= 3''
         [(''x1'', 1::nat), (''x2'', 2)]
       = constraint_from_str decimal_float ''0.5 * x1 + -1.0 * x2 <= 3''
         [(''x1'', 1::nat), (''x2'', 2)]
   \<and> constraint_from_str decimal_float ''0.5 * x1 + -1.0 * x2 >= 3''
         [(''x1'', 1::nat), (''x2'', 2)]
       = Inr (ParameterConstraint [(''x1'', 1 / 2), (''x2'', - 1)] 3)"
proof -
  let ?groups = "[(''0.5'', 1 / 2 :: rat, ''x1''), (''-1.0'', - 1, ''x2'')]"
  let ?params = "[(''x1'', 1::nat), (''x2'', 2)]"
  let ?ts = "[''0.5'', ''*'', ''x1'', ''+'', ''-1.0'', ''*'', ''x2'']"
  have l: "split ''0.5 * x1 + -1.0 * x2 <= 3'' = ?ts @ [''<='', ''3'']"
    by (simp add: split_def isspace_def)
  have g: "split ''0.5 * x1 + -1.0 * x2 >= 3'' = ?ts @ [''>='', ''3'']"
    by (simp add: split_def isspace_def)
  have w: "weighted_form ?groups = ?ts" by simp
  have ok: "\<forall>(wt, w, p) \<in> set ?groups. decimal_float wt = Some w \<and> p \<in> set (keys ?params)"
    by (simp add: decimal_examples keys_def)
  have b: "decimal_float ''3'' = Some 3" by (rule decimal_examples)
  from weighted_operator_ignored [where s = "''0.5 * x1 + -1.0 * x2 <= 3''"
      and s' = "''0.5 * x1 + -1.0 * x2 >= 3''" and ts = ?ts and bd = "''3''"
      and pyfloat = decimal_float and params = ?params and groups = ?groups
      and r = "''0.5 * x1 + -1.0 * x2 <= 3''" and r' = "''0.5 * x1 + -1.0 * x2 >= 3''"
      and bnd = "''3''" and b = 3]
    l g w ok b
  show ?thesis by (simp add: dict_def)
qed

subsection \<open>Outcome constraints\<close>

lemma outcome_tokens:
  assumes s: "split s = [m, cmp, bt]" and cmp: "cmp = ''<='' \<or> cmp = ''>=''"
  shows "outcome_constraint_from_str pyfloat s =
          (case pyfloat (if last bt = CHR ''%'' then butlast bt else bt) of
             None \<Rightarrow> Inl (ValueError OutcomeBoundNotFloat)
           | Some b \<Rightarrow>
               Inr (OutcomeConstraint (Metric m) (if cmp = ''<='' then LEQ else GEQ) b
                      (last bt = CHR ''%'')))"
proof -
  have "bt \<in> set (split s)" by (simp add: s)
  then have ne: "bt \<noteq> []" by (rule split_nonempty)
  have g: "getitem COMPARISON_OPS cmp = Inr (if cmp = ''<='' then LEQ else GEQ)"
    using cmp by (auto simp: getitem_cmp)
  have k: "cmp \<in> set (keys COMPARISON_OPS)" using cmp by (simp add: cmp_keys)
  show ?thesis
    by (simp add: outcome_constraint_from_str_def s g k ne Let_def split: option.splits)
qed

lemma ends_with_percent: "bt \<noteq> [] \<Longrightarrow> (last bt = CHR ''%'') = (\<exists>r. bt = r @ ''%'')"
  by (metis append_butlast_last_id last_snoc)

text \<open>
  C6. For an outcome constraint string of exactly three tokens with a comparison
  operator in the middle, the parser strips one trailing \<open>%\<close> from the bound token
  before reading it as a float; it raises a \<^verbatim>\<open>ValueError\<close> when what remains is not
  numeric, and otherwise returns the metric, the operator, the bound and a relative
  flag that is true if and only if the bound token ends with \<open>%\<close>. In particular
  \<open>auc >= 80%\<close> gives metric \<open>auc\<close>, \<open>GEQ\<close>, the float of \<open>80\<close>, relative.
\<close>

theorem outcome_constraint_relative:
  "(split s = [m, cmp, bt] \<and> (cmp = ''<='' \<or> cmp = ''>='')
    \<longrightarrow> outcome_constraint_from_str pyfloat s =
          (case pyfloat (if last bt = CHR ''%'' then butlast bt else bt) of
             None \<Rightarrow> Inl (ValueError OutcomeBoundNotFloat)
           | Some b \<Rightarrow>
               Inr (OutcomeConstraint (Metric m) (if cmp = ''<='' then LEQ else GEQ) b
                      (last bt = CHR ''%'')))
        \<and> (\<forall>oc. outcome_constraint_from_str pyfloat s = Inr oc
              \<longrightarrow> (relative oc \<longleftrightarrow> (\<exists>r. bt = r @ ''%''))))
   \<and> (pyfloat ''80'' = Some eighty
    \<longrightarrow> outcome_constraint_from_str pyfloat ''auc >= 80%''
        = Inr (OutcomeConstraint (Metric ''auc'') GEQ eighty True))"
proof (intro conjI impI allI)
  assume a: "split s = [m, cmp, bt] \<and> (cmp = ''<='' \<or> cmp = ''>='')"
  then show "outcome_constraint_from_str pyfloat s =
          (case pyfloat (if last bt = CHR ''%'' then butlast bt else bt) of
             None \<Rightarrow> Inl (ValueError OutcomeBoundNotFloat)
           | Some b \<Rightarrow>
               Inr (OutcomeConstraint (Metric m) (if cmp = ''<='' then LEQ else GEQ) b
                      (last bt = CHR ''%'')))"
    using outcome_tokens[of s m cmp bt pyfloat] by simp
next
  fix oc
  assume a: "split s = [m, cmp, bt] \<and> (cmp = ''<='' \<or> cmp = ''>='')"
    and r: "outcome_constraint_from_str pyfloat s = Inr oc"
  from a have "bt \<in> set (split s)" by simp
  then have ne: "bt \<noteq> []" by (rule split_nonempty)
  from a r outcome_tokens[of s m cmp bt pyfloat]
  have "relative oc = (last bt = CHR ''%'')"
    by (auto split: option.splits)
  then show "relative oc \<longleftrightarrow> (\<exists>r. bt = r @ ''%'')"
    by (simp only: ends_with_percent[OF ne])
next
  assume e: "pyfloat ''80'' = Some eighty"
  have s: "split ''auc >= 80%'' = [''auc'', ''>='', ''80%'']"
    by (simp add: split_def isspace_def)
  from outcome_tokens[OF s, of pyfloat] e
  show "outcome_constraint_from_str pyfloat ''auc >= 80%''
        = Inr (OutcomeConstraint (Metric ''auc'') GEQ eighty True)"
    by simp
qed

theorem outcome_constraint_relative_witness:
  "split ''auc >= 80%'' = [''auc'', ''>='', ''80%'']
   \<and> decimal_float ''80'' = Some 80
   \<and> outcome_constraint_from_str decimal_float ''auc >= 80%''
       = Inr (OutcomeConstraint (Metric ''auc'') GEQ 80 True)
   \<and> relative (OutcomeConstraint (Metric ''auc'') GEQ (80::rat) True)
   \<and> ''80%'' = ''80'' @ ''%''"
proof -
  have s: "split ''auc >= 80%'' = [''auc'', ''>='', ''80%'']"
    by (simp add: split_def isspace_def)
  have f: "decimal_float ''80'' = Some 80" by (rule decimal_examples)
  from outcome_constraint_relative [of "''auc >= 80%''" "''auc''" "''>=''" "''80%''"
      decimal_float 80] s f
  show ?thesis by simp
qed

subsection \<open>Experiments\<close>

text \<open>
  C7. When the outcome constraints parse, at least one of them is relative and no
  status quo is given, \<^verbatim>\<open>make_experiment\<close> raises and builds no experiment: the error
  is the one of the status quo check whenever the parameters build, and the error of
  the parameter builder otherwise. In particular the outcome constraint
  \<open>auc >= 80%\<close> without a status quo always raises.
\<close>

theorem relative_needs_status_quo:
  "(map_raise (outcome_constraint_from_str pyfloat)
        (case outcome_constraints of None \<Rightarrow> [] | Some cs \<Rightarrow> cs) = Inr ocs
      \<and> list_ex relative ocs
    \<longrightarrow> (\<exists>e. make_experiment default_name pyfloat params nm objective_name minimize
                parameter_constraints outcome_constraints None experiment_type = Inl e)
        \<and> (\<forall>ps. map_raise parameter_from_json params = Inr ps
             \<longrightarrow> make_experiment default_name pyfloat params nm objective_name minimize
                   parameter_constraints outcome_constraints None experiment_type
                 = Inl (ValueError MustSetStatusQuo)))
   \<and> (\<exists>e. make_experiment default_name pyfloat params nm objective_name minimize
             parameter_constraints (Some [''auc >= 80%'']) None experiment_type = Inl e)"
proof (intro conjI impI allI)
  assume a: "map_raise (outcome_constraint_from_str pyfloat)
        (case outcome_constraints of None \<Rightarrow> [] | Some cs \<Rightarrow> cs) = Inr ocs
      \<and> list_ex relative ocs"
  then show "\<exists>e. make_experiment default_name pyfloat params nm objective_name minimize
                parameter_constraints outcome_constraints None experiment_type = Inl e"
    by (cases "map_raise parameter_from_json params") (simp_all add: make_experiment_def)
next
  fix ps
  assume a: "map_raise (outcome_constraint_from_str pyfloat)
        (case outcome_constraints of None \<Rightarrow> [] | Some cs \<Rightarrow> cs) = Inr ocs
      \<and> list_ex relative ocs"
    and p: "map_raise parameter_from_json params = Inr ps"
  then show "make_experiment default_name pyfloat params nm objective_name minimize
                   parameter_constraints outcome_constraints None experiment_type
                 = Inl (ValueError MustSetStatusQuo)"
    by (simp add: make_experiment_def)
next
  have s: "split ''auc >= 80%'' = [''auc'', ''>='', ''80%'']"
    by (simp add: split_def isspace_def)
  have oc: "outcome_constraint_from_str pyfloat ''auc >= 80%''
        = (case pyfloat ''80'' of
             None \<Rightarrow> Inl (ValueError OutcomeBoundNotFloat)
           | Some b \<Rightarrow> Inr (OutcomeConstraint (Metric ''auc'') GEQ b True))"
    using outcome_tokens[OF s, of pyfloat] by (simp split: option.splits)
  show "\<exists>e. make_experiment default_name pyfloat params nm objective_name minimize
             parameter_constraints (Some [''auc >= 80%'']) None experiment_type = Inl e"
  proof (cases "map_raise parameter_from_json params")
    case (Inl e)
    then show ?thesis by (simp add: make_experiment_def)
  next
    case (Inr ps)
    show ?thesis
    proof (cases "pyfloat ''80''")
      case None
      with Inr oc show ?thesis by (simp add: make_experiment_def)
    next
      case (Some b)
      with Inr oc show ?thesis by (simp add: make_experiment_def)
    qed
  qed
qed

theorem relative_needs_status_quo_witness:
  "map_raise (outcome_constraint_from_str decimal_float)
       (case Some [''auc >= 80%''] of None \<Rightarrow> [] | Some cs \<Rightarrow> cs)
     = Inr [OutcomeConstraint (Metric ''auc'') GEQ 80 True]
   \<and> list_ex relative [OutcomeConstraint (Metric ''auc'') GEQ (80::rat) True]
   \<and> map_raise parameter_from_json
        [[(''name'', PyStr ''x1''), (''type'', PyStr ''range''),
          (''bounds'', PyList [PyFloat (0::rat), PyFloat 1])]]
     = Inr [RangeParameter ''x1'' T_FLOAT (PyFloat 0) (PyFloat 1) (PyBool False) (PyBool False)]
   \<and> make_experiment ''objective'' decimal_float
        [[(''name'', PyStr ''x1''), (''type'', PyStr ''range''),
          (''bounds'', PyList [PyFloat (0::rat), PyFloat 1])]]
        None None False None (Some [''auc >= 80%'']) None None
     = Inl (ValueError MustSetStatusQuo)"
proof -
  have s: "split ''auc >= 80%'' = [''auc'', ''>='', ''80%'']"
    by (simp add: split_def isspace_def)
  have o: "map_raise (outcome_constraint_from_str decimal_float)
       (case Some [''auc >= 80%''] of None \<Rightarrow> [] | Some cs \<Rightarrow> cs)
     = Inr [OutcomeConstraint (Metric ''auc'') GEQ 80 True]"
    using outcome_tokens[OF s, of decimal_float] by (simp add: decimal_examples)
  have r: "list_ex relative [OutcomeConstraint (Metric ''auc'') GEQ (80::rat) True]" by simp
  have p: "map_raise parameter_from_json
        [[(''name'', PyStr ''x1''), (''type'', PyStr ''range''),
          (''bounds'', PyList [PyFloat (0::rat), PyFloat 1])]]
     = Inr [RangeParameter ''x1'' T_FLOAT (PyFloat 0) (PyFloat 1) (PyBool False) (PyBool False)]"
    by (simp add: parameter_from_json_def getitem_def PARAM_CLASSES_def dict_get_def
        make_range_param_def to_parameter_type_def not_none_def get_parameter_type_def
        PARAMETER_PYTHON_TYPE_MAP_def isinstance_def issubclass_def)
  from relative_needs_status_quo [of decimal_float "Some [''auc >= 80%'']"
      "[OutcomeConstraint (Metric ''auc'') GEQ 80 True]" "''objective''"
      "[[(''name'', PyStr ''x1''), (''type'', PyStr ''range''),
          (''bounds'', PyList [PyFloat (0::rat), PyFloat 1])]]" None None False None None]
    o r p
  show ?thesis by simp
qed

subsection \<open>Type inference of the parameter builder\<close>

lemmas parameter_defs =
  parameter_from_json_def getitem_def PARAM_CLASSES_def PARAM_TYPES_def dict_get_def
  make_range_param_def make_choice_param_def make_fixed_param_def to_parameter_type_def
  not_none_def get_parameter_type_def PARAMETER_PYTHON_TYPE_MAP_def isinstance_def
  issubclass_def keys_def

lemma inference_rejects_unrelated:
  assumes "x \<in> set (v0 # rest)" and "\<not> issubclass (type_of x) (type_of v0)"
  shows "\<exists>e. to_parameter_type (v0 # rest) None nm fld = Inl e"
proof -
  from assms have "\<not> list_all (\<lambda>x. isinstance x (type_of v0)) (v0 # rest)"
    unfolding list_all_iff isinstance_def by blast
  then show ?thesis
    by (auto simp: to_parameter_type_def not_none_def split: sum.splits)
qed

lemma int_float_unrelated:
  "\<not> issubclass cls_float cls_int" "\<not> issubclass cls_int cls_float"
  "\<not> issubclass cls_int cls_bool"
  by (simp_all add: issubclass_def)

text \<open>
  C2. A value list of more than one exact runtime type, with no \<^verbatim>\<open>value_type\<close>,
  is meant to be rejected, and is whenever a value is no instance of the class of the
  first one. The check is \<^verbatim>\<open>isinstance\<close> against the type of
  the first value, so a \<^verbatim>\<open>bool\<close> after an \<^verbatim>\<open>int\<close> passes: the choice values
  \<open>[1, True]\<close> are accepted as an integer parameter, although the same values in the
  other order, and an \<^verbatim>\<open>int\<close> with a \<^verbatim>\<open>float\<close>, are rejected with the message that
  the values are not of the same type.
\<close>

theorem mixed_int_bool_accepted:
  "type_of (PyInt 1 :: rat pyval) \<noteq> type_of (PyBool True :: rat pyval)
   \<and> parameter_from_json
        [(''name'', PyStr ''x''), (''type'', PyStr ''choice''),
         (''values'', PyList [PyInt 1, PyBool True :: rat pyval])]
     = Inr (ChoiceParameter ''x'' T_INT [PyInt 1, PyBool True] (PyBool False))
   \<and> parameter_from_json
        [(''name'', PyStr ''x''), (''type'', PyStr ''choice''),
         (''values'', PyList [PyBool True, PyInt 1 :: rat pyval])]
     = Inl (AssertionError (ValuesNotSameType ''values'' ''x''))
   \<and> parameter_from_json
        [(''name'', PyStr ''x''), (''type'', PyStr ''range''),
         (''bounds'', PyList [PyInt 1, PyFloat (2 :: rat)])]
     = Inl (AssertionError (ValuesNotSameType ''bounds'' ''x''))"
  by (simp add: parameter_defs)

subsection \<open>Evaluations\<close>

text \<open>
  A tuple of three values is no two-tuple, and is wrapped all the same: the test is on
  the class \<^verbatim>\<open>tuple\<close> alone.
\<close>

theorem three_tuple_wrapped:
  "length [PyFloat (1::rat), PyFloat 2, PyFloat 3] \<noteq> 2
   \<and> raw_data_to_evaluation (PyTuple [PyFloat (1::rat), PyFloat 2, PyFloat 3]) ''loss''
     = Inr (PyDict [(''loss'', PyTuple [PyFloat 1, PyFloat 2, PyFloat 3])])"
  by (simp add: raw_data_to_evaluation_def isinstance_def issubclass_def)

text \<open>
  C8, amended. \<^verbatim>\<open>raw_data_to_evaluation\<close> dispatches on the class of its input: a dict
  is returned unchanged unless one of its values is a dict, where it raises; a list is
  returned unchanged; a tuple of any length becomes \<open>{objective_name: tuple}\<close>; a
  number (\<^verbatim>\<open>float\<close>, \<^verbatim>\<open>int\<close>, \<^verbatim>\<open>bool\<close> and the numpy scalars named by the source)
  becomes \<open>{objective_name: (value, None)}\<close>, the numpy scalars outside \<^verbatim>\<open>float\<close>
  converted to plain numbers; every other value (\<^verbatim>\<open>None\<close>, a string) raises. In
  particular a float under the name \<open>loss\<close> is wrapped with a \<^verbatim>\<open>None\<close> SEM, and a
  dict with a dict value raises.
\<close>

theorem raw_data_dispatch:
  "raw_data_to_evaluation raw objective_name =
     (case raw of
        PyDict d \<Rightarrow>
          if list_ex (\<lambda>x. isinstance x cls_dict) (map snd d)
          then Inl (ValueError OneArmExpected) else Inr raw
      | PyList xs \<Rightarrow> Inr raw
      | PyTuple xs \<Rightarrow> Inr (PyDict [(objective_name, raw)])
      | PyFloat x \<Rightarrow> Inr (PyDict [(objective_name, PyTuple [raw, PyNone])])
      | PyInt n \<Rightarrow> Inr (PyDict [(objective_name, PyTuple [raw, PyNone])])
      | PyBool b \<Rightarrow> Inr (PyDict [(objective_name, PyTuple [raw, PyNone])])
      | NpFloat64 x \<Rightarrow> Inr (PyDict [(objective_name, PyTuple [raw, PyNone])])
      | NpFloat32 x \<Rightarrow> Inr (PyDict [(objective_name, PyTuple [PyFloat x, PyNone])])
      | NpInt32 n \<Rightarrow> Inr (PyDict [(objective_name, PyTuple [PyInt n, PyNone])])
      | NpInt64 n \<Rightarrow> Inr (PyDict [(objective_name, PyTuple [PyInt n, PyNone])])
      | PyStr s \<Rightarrow> Inl (ValueError InvalidRawData)
      | PyNone \<Rightarrow> Inl (ValueError InvalidRawData))
   \<and> raw_data_to_evaluation (PyFloat x) ''loss''
     = Inr (PyDict [(''loss'', PyTuple [PyFloat x, PyNone])])
   \<and> raw_data_to_evaluation
        (PyDict [(''a'', PyInt 1), (''b'', PyDict [(''c'', PyInt 2)])]) ''x''
     = Inl (ValueError OneArmExpected)"
  by (cases raw) (simp_all add: raw_data_to_evaluation_def isinstance_def issubclass_def)

lemma map_raise_getitem_keys:
  assumes "distinct (keys d)"
  shows "map_raise (getitem d) (keys d) = Inr (map snd d)"
proof -
  have "map_raise (getitem d) (keys d) = Inr (map (\<lambda>k. the (map_of d k)) (keys d))"
    by (rule map_raise_getitem) simp
  moreover have "map (\<lambda>k. the (map_of d k)) (filter (\<lambda>k. True) (map fst d))
                 = map snd (filter (\<lambda>kv. True) d)"
    using assms by (intro lookup_filter_keys) (simp add: keys_def)
  ultimately show ?thesis by (simp add: keys_def)
qed

lemma data_dispatch:
  assumes "distinct (keys evaluations)"
  shows "data_from_evaluations evaluations ti ss st et =
          (if list_all (\<lambda>v. isinstance v cls_dict) (map snd evaluations)
           then Inr (from_evaluations evaluations ti ss st et)
           else if list_all (\<lambda>v. isinstance v cls_list) (map snd evaluations)
           then Inr (from_fidelity_evaluations evaluations ti ss st et)
           else Inl (ValueError MixedFidelity))"
  by (simp add: data_from_evaluations_def map_raise_getitem_keys[OF assms])

lemma not_dict_and_list: "isinstance v cls_dict \<Longrightarrow> \<not> isinstance v cls_list"
  by (cases v) (simp_all add: isinstance_def issubclass_def)

text \<open>
  C9. For an evaluations dict, \<^verbatim>\<open>data_from_evaluations\<close> calls the no-fidelity entry
  point when every value is a dict, else the with-fidelity entry point when every value
  is a list, and raises otherwise, in particular when one value is a dict and another a
  list; the evaluations, trial index, sample sizes, start and end time reach the chosen
  entry point unchanged.
\<close>

theorem data_table_dispatch:
  "(distinct (keys evaluations)
    \<longrightarrow> data_from_evaluations evaluations trial_index sample_sizes start_time end_time =
          (if list_all (\<lambda>v. isinstance v cls_dict) (map snd evaluations)
           then Inr (from_evaluations evaluations trial_index sample_sizes start_time end_time)
           else if list_all (\<lambda>v. isinstance v cls_list) (map snd evaluations)
           then Inr (from_fidelity_evaluations evaluations trial_index sample_sizes
                       start_time end_time)
           else Inl (ValueError MixedFidelity)))
   \<and> (distinct (keys evaluations)
      \<and> (a, va) \<in> set evaluations \<and> isinstance va cls_dict
      \<and> (b, vb) \<in> set evaluations \<and> isinstance vb cls_list
    \<longrightarrow> data_from_evaluations evaluations trial_index sample_sizes start_time end_time
        = Inl (ValueError MixedFidelity))"
proof (intro conjI impI)
  assume "distinct (keys evaluations)"
  then show "data_from_evaluations evaluations trial_index sample_sizes start_time end_time =
          (if list_all (\<lambda>v. isinstance v cls_dict) (map snd evaluations)
           then Inr (from_evaluations evaluations trial_index sample_sizes start_time end_time)
           else if list_all (\<lambda>v. isinstance v cls_list) (map snd evaluations)
           then Inr (from_fidelity_evaluations evaluations trial_index sample_sizes
                       start_time end_time)
           else Inl (ValueError MixedFidelity))"
    by (rule data_dispatch)
next
  assume a: "distinct (keys evaluations)
      \<and> (a, va) \<in> set evaluations \<and> isinstance va cls_dict
      \<and> (b, vb) \<in> set evaluations \<and> isinstance vb cls_list"
  then have d: "distinct (keys evaluations)" by simp
  from a have "va \<in> set (map snd evaluations)" "vb \<in> set (map snd evaluations)"
    by force+
  moreover from a have "\<not> isinstance va cls_list" "\<not> isinstance vb cls_dict"
    using not_dict_and_list by auto
  ultimately have "\<not> list_all (\<lambda>v. isinstance v cls_dict) (map snd evaluations)"
    "\<not> list_all (\<lambda>v. isinstance v cls_list) (map snd evaluations)"
    unfolding list_all_iff by blast+
  then show "data_from_evaluations evaluations trial_index sample_sizes start_time end_time
        = Inl (ValueError MixedFidelity)"
    by (simp add: data_dispatch[OF d])
qed

theorem data_table_dispatch_witness:
  "distinct (keys [(''arm1'', PyDict [(''m'', PyTuple [PyFloat (1::rat), PyFloat (1 / 10)])]),
                   (''arm2'', PyList [PyTuple [PyDict [(''fid'', PyFloat 1)],
                                PyDict [(''m'', PyTuple [PyFloat 2, PyFloat (1 / 10)])]]])])
   \<and> isinstance (PyDict [(''m'', PyTuple [PyFloat (1::rat), PyFloat (1 / 10)])]) cls_dict
   \<and> isinstance (PyList [PyTuple [PyDict [(''fid'', PyFloat (1::rat))],
                   PyDict [(''m'', PyTuple [PyFloat 2, PyFloat (1 / 10)])]]]) cls_list
   \<and> data_from_evaluations
        [(''arm1'', PyDict [(''m'', PyTuple [PyFloat (1::rat), PyFloat (1 / 10)])]),
         (''arm2'', PyList [PyTuple [PyDict [(''fid'', PyFloat 1)],
                      PyDict [(''m'', PyTuple [PyFloat 2, PyFloat (1 / 10)])]]])]
        0 [] None None
     = Inl (ValueError MixedFidelity)
   \<and> data_from_evaluations
        [(''arm1'', PyDict [(''m'', PyTuple [PyFloat (1::rat), PyFloat (1 / 10)])])]
        7 [(''arm1'', 3)] (Some 10) (Some 20)
     = Inr (from_evaluations
        [(''arm1'', PyDict [(''m'', PyTuple [PyFloat (1::rat), PyFloat (1 / 10)])])]
        7 [(''arm1'', 3)] (Some 10) (Some 20))"
proof -
  let ?v1 = "PyDict [(''m'', PyTuple [PyFloat (1::rat), PyFloat (1 / 10)])]"
  let ?v2 = "PyList [PyTuple [PyDict [(''fid'', PyFloat (1::rat))],
                   PyDict [(''m'', PyTuple [PyFloat 2, PyFloat (1 / 10)])]]]"
  have d: "distinct (keys [(''arm1'', ?v1), (''arm2'', ?v2)])" by (simp add: keys_def)
  have d1: "distinct (keys [(''arm1'', ?v1)])" by (simp add: keys_def)
  have i1: "isinstance ?v1 cls_dict" by (simp add: isinstance_def issubclass_def)
  have i2: "isinstance ?v2 cls_list" by (simp add: isinstance_def issubclass_def)
  from data_table_dispatch [of "[(''arm1'', ?v1), (''arm2'', ?v2)]" 0 "[]" None None
      "''arm1''" ?v1 "''arm2''" ?v2]
    data_table_dispatch [of "[(''arm1'', ?v1)]" 7 "[(''arm1'', 3)]" "Some 10" "Some 20"
      "''arm1''" ?v1 "''arm1''" ?v1]
    d d1 i1 i2
  show ?thesis by (simp add: isinstance_def issubclass_def)
qed

end
